theory Spec2Isabelle
  imports Main "HOL-Library.Word"
begin

section \<open>Library functions of Go used by the installer\<close>

text \<open>
  Go strings are byte sequences, as \<^typ>\<open>string\<close> is here. The functions of this section
  are the ones of Go's packages \<^verbatim>\<open>strings\<close> and \<^verbatim>\<open>path/filepath\<close> (Unix) that the
  installer calls; they are written after the documented behaviour of those packages.
\<close>

definition strings_HasPrefix :: "string \<Rightarrow> string \<Rightarrow> bool" where
  "strings_HasPrefix s p = (take (length p) s = p)"

definition strings_TrimPrefix :: "string \<Rightarrow> string \<Rightarrow> string" where
  "strings_TrimPrefix s p = (if strings_HasPrefix s p then drop (length p) s else s)"

text \<open>\<^verbatim>\<open>strings.Count(s, sep)\<close> for a separator of one byte.\<close>

definition strings_Count :: "string \<Rightarrow> char \<Rightarrow> nat" where
  "strings_Count s c = length (filter (\<lambda>x. x = c) s)"

fun strings_Contains :: "string \<Rightarrow> string \<Rightarrow> bool" where
  "strings_Contains [] sub = (sub = [])"
| "strings_Contains (c # s) sub = (strings_HasPrefix (c # s) sub \<or> strings_Contains s sub)"

definition lower_byte :: "char \<Rightarrow> char" where
  "lower_byte c =
     (if (65::nat) \<le> of_char c \<and> of_char c \<le> (90::nat)
      then char_of (of_char c + (32::nat)) else c)"

text \<open>
  \<^verbatim>\<open>strings.ToLower\<close>: a string of ASCII bytes only is lowered byte by byte; any other
  string goes through the Unicode case tables, which are the parameter \<open>unicode_lower\<close>.
\<close>

definition strings_ToLower :: "(string \<Rightarrow> string) \<Rightarrow> string \<Rightarrow> string" where
  "strings_ToLower unicode_lower s =
     (if \<forall>c \<in> set s. of_char c < (128::nat) then map lower_byte s else unicode_lower s)"

subsection \<open>Paths (Unix: the separator is the slash)\<close>

definition PathSeparator :: char where
  "PathSeparator = CHR ''/''"

fun split_path :: "string \<Rightarrow> string list" where
  "split_path [] = [[]]"
| "split_path (c # cs) =
     (if c = PathSeparator then [] # split_path cs
      else (case split_path cs of
              [] \<Rightarrow> [[c]]
            | x # xs \<Rightarrow> (c # x) # xs))"

fun join_path :: "string list \<Rightarrow> string" where
  "join_path [] = []"
| "join_path [x] = x"
| "join_path (x # y # ys) = x @ [PathSeparator] @ join_path (y # ys)"

text \<open>
  \<^verbatim>\<open>filepath.Clean\<close> reads the path element by element. Here the elements kept so far
  are a stack, last element first: an empty element and \<open>.\<close> are dropped, \<open>..\<close> removes
  the element before it when that is a name, is dropped at the root, and is kept at the
  start of a relative path.
\<close>

definition clean_element :: "bool \<Rightarrow> string list \<Rightarrow> string \<Rightarrow> string list" where
  "clean_element rooted kept e =
     (if e = [] \<or> e = ''.'' then kept
      else if e = ''..'' then
        (case kept of
           [] \<Rightarrow> (if rooted then [] else [''..''])
         | k # ks \<Rightarrow> (if k = ''..'' then ''..'' # kept else ks))
      else e # kept)"

definition filepath_Clean :: "string \<Rightarrow> string" where
  "filepath_Clean path =
     (if path = [] then ''.''
      else
        (let rooted = (hd path = PathSeparator);
             kept = foldl (clean_element rooted) [] (split_path path);
             out = join_path (rev kept)
         in if rooted then PathSeparator # out
            else if out = [] then ''.'' else out))"

text \<open>
  \<^verbatim>\<open>filepath.Join\<close>: the elements from the first non-empty one on, joined by the
  separator and cleaned; the empty string when every element is empty.
\<close>

definition filepath_Join :: "string list \<Rightarrow> string" where
  "filepath_Join elem =
     (case dropWhile (\<lambda>e. e = []) elem of
        [] \<Rightarrow> []
      | e # es \<Rightarrow> filepath_Clean (join_path (e # es)))"

section \<open>Data model\<close>

text \<open>One file of a release (the anonymous struct of \<^verbatim>\<open>GoVersionInfo.Files\<close>).\<close>

record GoFile =
  Filename :: string
  OS :: string
  Arch :: string
  Checksum :: string
  Size :: int
  Kind :: string

record GoVersionInfo =
  Version :: string
  Stable :: bool
  Files :: "GoFile list"

text \<open>\<^verbatim>\<open>os.FileMode\<close> is a \<^verbatim>\<open>uint32\<close>.\<close>

type_synonym FileMode = "32 word"

text \<open>
  The calls to the operating system that the installer makes on the file tree.
  \<open>SysOpenTrunc\<close> is \<^verbatim>\<open>os.OpenFile\<close> with \<^verbatim>\<open>O_CREATE|O_RDWR|O_TRUNC\<close> (and so
  \<^verbatim>\<open>os.Create\<close>, with mode \<open>0666\<close>), \<open>SysOpenAppend\<close> is \<^verbatim>\<open>os.OpenFile\<close> with
  \<^verbatim>\<open>O_APPEND|O_WRONLY\<close>, \<open>SysWrite\<close> is a write of bytes to the file opened at the path
  (\<^verbatim>\<open>WriteString\<close>, \<^verbatim>\<open>io.Copy\<close>).
\<close>

datatype syscall =
    SysStat string
  | SysMkdirAll string FileMode
  | SysChmod string FileMode
  | SysOpenTrunc string FileMode
  | SysOpenAppend string
  | SysWrite string string
  | SysReadFile string
  | SysRemoveAll string

text \<open>
  What a run does to the outside: lines printed (the output of \<^verbatim>\<open>debugPrint\<close> is left
  out), the calls on the file tree, and the one network call the resolver itself decides
  on, the request for the plaintext latest version.
\<close>

datatype event = Stdout string | Stderr string | GetLatestText | Sys syscall

text \<open>A stage of \<^verbatim>\<open>main\<close> either goes on with a value or ends the process (\<^verbatim>\<open>os.Exit\<close>).\<close>

datatype 'a proc = Exit nat | Running 'a

section \<open>Platform detector\<close>






section \<open>Architecture mapper\<close>

definition mapArchitecture :: "(string \<Rightarrow> string) \<Rightarrow> string \<Rightarrow> string" where
  "mapArchitecture unicode_lower detectedArch =
     (let lowerArch = strings_ToLower unicode_lower detectedArch in
      if lowerArch = ''x86_64'' \<or> lowerArch = ''amd64'' then ''amd64''
      else if lowerArch = ''aarch64'' \<or> lowerArch = ''arm64'' then ''arm64''
      else if lowerArch = ''i386'' \<or> lowerArch = ''i686'' then ''386''
      else if lowerArch = ''armv6l'' \<or> lowerArch = ''armv7l'' then ''arm''
      else if lowerArch = ''ppc64le'' then ''ppc64le''
      else if lowerArch = ''s390x'' then ''s390x''
      else detectedArch)"

text \<open>
  The first step of \<^verbatim>\<open>main\<close>: \<open>info\<close> is what \<^verbatim>\<open>getSystemInfo\<close> returned (kernel
  version, architecture, error), \<open>GOOS\<close> and \<open>GOARCH\<close> are the constants of the build.
  The result is \<open>goArch\<close>.
\<close>

definition detect_goArch ::
  "(string \<Rightarrow> string) \<Rightarrow> string \<Rightarrow> string \<Rightarrow> string \<times> string \<times> string option
     \<Rightarrow> string proc \<times> event list" where
  "detect_goArch unicode_lower GOOS GOARCH info =
     (case info of (kernelVersion, detectedArchitecture, err) \<Rightarrow>
        (case err of
           Some e \<Rightarrow>
             (Running GOARCH,
              [Stderr (''Error: Failed to get system information: '' @ e @ [CHR 0x0A]),
               Stdout (''Warning: Will use Go's build time system and architecture (''
                       @ GOOS @ ''/'' @ GOARCH @ '')'' @ [CHR 0x0A])])
         | None \<Rightarrow>
             (let goArch = mapArchitecture unicode_lower detectedArchitecture;
                  out = [Stdout (''System Info: Kernel Version '' @ kernelVersion
                                 @ '', Detected Architecture '' @ detectedArchitecture
                                 @ [CHR 0x0A])]
              in if goArch = []
                 then (Exit 1,
                       out @ [Stderr (''Error: Could not map detected architecture ''
                                      @ [CHR 0x27] @ detectedArchitecture @ [CHR 0x27]
                                      @ '' to a supported Go architecture.'' @ [CHR 0x0A])])
                 else (Running goArch,
                       out @ [Stdout (''Mapped Go Architecture: '' @ goArch @ [CHR 0x0A])]))))"

section \<open>Version resolver\<close>

text \<open>The three variables of \<^verbatim>\<open>main\<close> that the resolution assigns.\<close>

record rstate =
  versionToInstall :: string
  downloadURL :: string
  foundDownloadable :: bool

definition rstate0 :: rstate where
  "rstate0 = \<lparr>versionToInstall = [], downloadURL = [], foundDownloadable = False\<rparr>"

text \<open>The loop over \<^verbatim>\<open>v.Files\<close>; it is the same in both branches of the resolution.\<close>

fun scan_files :: "string \<Rightarrow> string \<Rightarrow> string \<Rightarrow> GoFile list \<Rightarrow> rstate \<Rightarrow> rstate" where
  "scan_files GOOS goArch ver [] st = st"
| "scan_files GOOS goArch ver (file # rest) st =
     (if OS file = GOOS \<and> Arch file = goArch \<and> Kind file = ''archive''
      then st\<lparr>versionToInstall := strings_TrimPrefix ver ''go'',
              downloadURL := ''https://go.dev/dl/'' @ Filename file,
              foundDownloadable := True\<rparr>
      else scan_files GOOS goArch ver rest st)"

text \<open>The loop over \<^verbatim>\<open>allVersions\<close> for a requested version.\<close>

fun scan_requested ::
  "string \<Rightarrow> string \<Rightarrow> string \<Rightarrow> GoVersionInfo list \<Rightarrow> rstate \<Rightarrow> rstate" where
  "scan_requested GOOS goArch targetVer [] st = st"
| "scan_requested GOOS goArch targetVer (v # rest) st =
     (let st1 = (if strings_TrimPrefix (Version v) ''go'' = targetVer
                 then scan_files GOOS goArch (Version v) (Files v) st else st)
      in if foundDownloadable st1 then st1
         else scan_requested GOOS goArch targetVer rest st1)"

text \<open>The loop over \<^verbatim>\<open>allVersions\<close> when no version is requested.\<close>

fun scan_stable :: "string \<Rightarrow> string \<Rightarrow> GoVersionInfo list \<Rightarrow> rstate \<Rightarrow> rstate" where
  "scan_stable GOOS goArch [] st = st"
| "scan_stable GOOS goArch (v # rest) st =
     (let st1 = (if Stable v then scan_files GOOS goArch (Version v) (Files v) st else st)
      in if foundDownloadable st1 then st1
         else scan_stable GOOS goArch rest st1)"

definition constructed_url :: "string \<Rightarrow> string \<Rightarrow> string \<Rightarrow> string" where
  "constructed_url ver GOOS goArch =
     ''https://go.dev/dl/go'' @ ver @ ''.'' @ GOOS @ ''-'' @ goArch @ ''.tar.gz''"

text \<open>
  The loop over \<^verbatim>\<open>targetVersions\<close>. Both branches at the end of its body leave the loop
  (\<^verbatim>\<open>break\<close>), so the body runs for the first element only and there is no recursive
  call.
\<close>

fun target_loop ::
  "string \<Rightarrow> string \<Rightarrow> GoVersionInfo list option \<Rightarrow> string list \<Rightarrow> rstate
     \<Rightarrow> rstate \<times> event list" where
  "target_loop GOOS goArch allVersions [] st = (st, [])"
| "target_loop GOOS goArch allVersions (originalTargetVer # later) st =
     (let targetVer = (if strings_Count originalTargetVer (CHR ''.'') = 1
                       then originalTargetVer @ ''.0'' else originalTargetVer);
          st1 = (case allVersions of
                   None \<Rightarrow> st
                 | Some vs \<Rightarrow> scan_requested GOOS goArch targetVer vs st)
      in if foundDownloadable st1 then (st1, [])
         else (st1\<lparr>versionToInstall := targetVer,
                   downloadURL := constructed_url targetVer GOOS goArch,
                   foundDownloadable := True\<rparr>,
               [Stdout (''Warning: Could not find specified version '' @ originalTargetVer
                        @ '' ('' @ GOOS @ ''/'' @ goArch
                        @ '') in JSON API. Attempting to construct URL...'' @ [CHR 0x0A]),
                Stdout (''Attempting to construct download URL: ''
                        @ constructed_url targetVer GOOS goArch @ [CHR 0x0A])]))"

text \<open>
  The resolution of \<^verbatim>\<open>main\<close>. \<open>allVersions\<close> is the slice that \<^verbatim>\<open>getAllGoVersions\<close>
  returned (\<open>None\<close> for \<^verbatim>\<open>nil\<close>), \<open>latestText\<close> is what
  \<^verbatim>\<open>getLatestGoVersionFromTextHTTP\<close> returns if it is called (\<open>Inl\<close> its error): both are
  answers of the network. The call of the second is recorded as \<^const>\<open>GetLatestText\<close>.
\<close>

definition resolve ::
  "string \<Rightarrow> string \<Rightarrow> GoVersionInfo list option \<Rightarrow> string + string \<Rightarrow> string list
     \<Rightarrow> rstate proc \<times> event list" where
  "resolve GOOS goArch allVersions latestText targetVersions =
     (if length targetVersions > 0 then
        (case target_loop GOOS goArch allVersions targetVersions rstate0 of (st, out) \<Rightarrow>
           if \<not> foundDownloadable st
           then (Exit 1,
                 out @ [Stderr (''Error: No matching Go version found for installation. ''
                          @ ''Please check the version number and system architecture.''
                          @ [CHR 0x0A])])
           else (Running st, out))
      else
        (let st1 = (case allVersions of
                      None \<Rightarrow> rstate0
                    | Some vs \<Rightarrow> scan_stable GOOS goArch vs rstate0);
             after_text =
               (if \<not> foundDownloadable st1 \<or> downloadURL st1 = [] then
                  (let out = [Stdout (''Warning: Could not find latest stable version in ''
                                @ ''JSON API. Attempting to get latest version from ''
                                @ ''go.dev/VERSION?m=text using HTTP request...''
                                @ [CHR 0x0A]),
                              GetLatestText]
                   in case latestText of
                        Inl err \<Rightarrow>
                          (Exit 1,
                           out @ [Stderr (''Error: Failed to get latest Go version from text ''
                                    @ ''URL via HTTP: '' @ err @ [CHR 0x0A]),
                                  Stderr (''Error: Could not determine Go version to install.''
                                    @ [CHR 0x0A])])
                      | Inr latestVer \<Rightarrow>
                          (let url = constructed_url latestVer GOOS goArch in
                           (Running (st1\<lparr>versionToInstall := latestVer, downloadURL := url,
                                         foundDownloadable := True\<rparr>),
                            out @ [Stdout (''Deduced latest version: '' @ latestVer
                                     @ '', Constructed download URL: '' @ url @ [CHR 0x0A])])))
                else (Running st1, []))
         in case after_text of
              (Exit code, out) \<Rightarrow> (Exit code, out)
            | (Running st2, out) \<Rightarrow>
                if \<not> foundDownloadable st2
                then (Exit 1,
                      out @ [Stderr (''Error: Internal error: Failed to determine version ''
                               @ ''and download URL.'' @ [CHR 0x0A])])
                else (Running st2,
                      out @ [Stdout (''No version specified, installing latest stable ''
                               @ ''version: '' @ versionToInstall st2 @ [CHR 0x0A])])))"

section \<open>What the resolver's loops compute\<close>

text \<open>The test on a file that both file loops make.\<close>

definition host_archive :: "string \<Rightarrow> string \<Rightarrow> GoFile \<Rightarrow> bool" where
  "host_archive GOOS goArch file = (OS file = GOOS \<and> Arch file = goArch \<and> Kind file = ''archive'')"

text \<open>
  The first entry of the catalog that satisfies \<open>P\<close> and has a file for the host, with the
  first such file of that entry.
\<close>

definition catalog_pick ::
  "string \<Rightarrow> string \<Rightarrow> (GoVersionInfo \<Rightarrow> bool) \<Rightarrow> GoVersionInfo list
     \<Rightarrow> (GoVersionInfo \<times> GoFile) option" where
  "catalog_pick GOOS goArch P vs =
     (case find (\<lambda>v. P v \<and> find (host_archive GOOS goArch) (Files v) \<noteq> None) vs of
        None \<Rightarrow> None
      | Some v \<Rightarrow> map_option (Pair v) (find (host_archive GOOS goArch) (Files v)))"

text \<open>The version string the lookup uses for a requested one.\<close>

definition completed_version :: "string \<Rightarrow> string" where
  "completed_version t = (if strings_Count t (CHR ''.'') = 1 then t @ ''.0'' else t)"

definition from_catalog :: "GoVersionInfo \<Rightarrow> GoFile \<Rightarrow> rstate" where
  "from_catalog v file =
     \<lparr>versionToInstall = strings_TrimPrefix (Version v) ''go'',
      downloadURL = ''https://go.dev/dl/'' @ Filename file,
      foundDownloadable = True\<rparr>"

definition constructed :: "string \<Rightarrow> string \<Rightarrow> string \<Rightarrow> rstate" where
  "constructed ver GOOS goArch =
     \<lparr>versionToInstall = ver, downloadURL = constructed_url ver GOOS goArch,
      foundDownloadable = True\<rparr>"

section \<open>The file tree and the operating system\<close>

text \<open>
  A file tree maps a path to a directory with its mode, or to a regular file with its mode
  and bytes. There are no symbolic links in it: the installer creates none.
\<close>

datatype node = Directory FileMode | Regular FileMode string

text \<open>The state of a run: the file tree and what the run has done so far.\<close>

record world =
  files :: "string \<Rightarrow> node option"
  trace :: "event list"

definition emit :: "event \<Rightarrow> world \<Rightarrow> world" where
  "emit e w = w\<lparr>trace := trace w @ [e]\<rparr>"

definition emits :: "event list \<Rightarrow> world \<Rightarrow> world" where
  "emits es w = w\<lparr>trace := trace w @ es\<rparr>"

text \<open>
  The operating system may refuse a call for a reason that the file tree does not show
  (permissions, a full disk, an I/O error). \<open>refused\<close> gives the error message for such a
  call, by the kind of the call and its path.
\<close>

datatype call_kind =
  KStat | KMkdirAll | KChmod | KOpenTrunc | KOpenAppend | KWrite | KReadFile | KRemoveAll

type_synonym refusal = "call_kind \<Rightarrow> string \<Rightarrow> string option"

text \<open>The directories above a path, outermost first; the root is not listed.\<close>

definition ancestors :: "string \<Rightarrow> string list" where
  "ancestors p = [take i p. i \<leftarrow> [1 ..< length p], p ! i = PathSeparator]"

definition parent_missing :: "(string \<Rightarrow> node option) \<Rightarrow> string \<Rightarrow> bool" where
  "parent_missing fs p =
     (case rev (ancestors p) of
        [] \<Rightarrow> False
      | d # _ \<Rightarrow> (case fs d of Some (Directory _) \<Rightarrow> False | _ \<Rightarrow> True))"

definition is_regular :: "node option \<Rightarrow> bool" where
  "is_regular n = (case n of Some (Regular _ _) \<Rightarrow> True | _ \<Rightarrow> False)"

text \<open>The three answers of \<^verbatim>\<open>os.Stat\<close> that the installer tells apart.\<close>

datatype stat_result = StatOk | StatNotExist | StatError string

definition os_Stat :: "refusal \<Rightarrow> string \<Rightarrow> world \<Rightarrow> stat_result \<times> world" where
  "os_Stat refused p w =
     (case refused KStat p of
        Some e \<Rightarrow> StatError e
      | None \<Rightarrow> (case files w p of None \<Rightarrow> StatNotExist | Some _ \<Rightarrow> StatOk),
      emit (Sys (SysStat p)) w)"

text \<open>
  \<^verbatim>\<open>os.MkdirAll\<close>: nothing to do for a directory that exists; otherwise every missing
  directory on the way is created with the given mode. A regular file on the way is an
  error.
\<close>

definition os_MkdirAll ::
  "refusal \<Rightarrow> string \<Rightarrow> FileMode \<Rightarrow> world \<Rightarrow> string option \<times> world" where
  "os_MkdirAll refused p perm w =
     (let w1 = emit (Sys (SysMkdirAll p perm)) w;
          chain = ancestors p @ [p]
      in case refused KMkdirAll p of
           Some e \<Rightarrow> (Some e, w1)
         | None \<Rightarrow>
             if list_ex (\<lambda>d. is_regular (files w d)) chain
             then (Some (''mkdir '' @ p @ '': not a directory''), w1)
             else (None,
                   w1\<lparr>files := (\<lambda>q. if q \<in> set chain \<and> files w q = None
                                     then Some (Directory perm) else files w q)\<rparr>))"

definition os_Chmod ::
  "refusal \<Rightarrow> string \<Rightarrow> FileMode \<Rightarrow> world \<Rightarrow> string option \<times> world" where
  "os_Chmod refused p perm w =
     (let w1 = emit (Sys (SysChmod p perm)) w
      in case refused KChmod p of
           Some e \<Rightarrow> (Some e, w1)
         | None \<Rightarrow>
             (case files w p of
                None \<Rightarrow> (Some (''chmod '' @ p @ '': no such file or directory''), w1)
              | Some (Directory _) \<Rightarrow> (None, w1\<lparr>files := (files w)(p \<mapsto> Directory perm)\<rparr>)
              | Some (Regular _ c) \<Rightarrow> (None, w1\<lparr>files := (files w)(p \<mapsto> Regular perm c)\<rparr>)))"

text \<open>
  \<^verbatim>\<open>os.OpenFile(p, O_CREATE|O_RDWR|O_TRUNC, perm)\<close>: a file that exists is emptied and
  keeps its mode, a missing one is created empty with the given mode.
\<close>

definition os_OpenTrunc ::
  "refusal \<Rightarrow> string \<Rightarrow> FileMode \<Rightarrow> world \<Rightarrow> string option \<times> world" where
  "os_OpenTrunc refused p perm w =
     (let w1 = emit (Sys (SysOpenTrunc p perm)) w
      in case refused KOpenTrunc p of
           Some e \<Rightarrow> (Some e, w1)
         | None \<Rightarrow>
             (case files w p of
                Some (Directory _) \<Rightarrow> (Some (''open '' @ p @ '': is a directory''), w1)
              | Some (Regular m _) \<Rightarrow> (None, w1\<lparr>files := (files w)(p \<mapsto> Regular m [])\<rparr>)
              | None \<Rightarrow>
                  if parent_missing (files w) p
                  then (Some (''open '' @ p @ '': no such file or directory''), w1)
                  else (None, w1\<lparr>files := (files w)(p \<mapsto> Regular perm [])\<rparr>)))"

text \<open>
  \<^verbatim>\<open>os.Create(p)\<close> is \<^verbatim>\<open>OpenFile(p, O_RDWR|O_CREATE|O_TRUNC, 0666)\<close>; octal \<open>0666\<close> is
  \<open>0x1B6\<close>.
\<close>

definition os_Create :: "refusal \<Rightarrow> string \<Rightarrow> world \<Rightarrow> string option \<times> world" where
  "os_Create refused p w = os_OpenTrunc refused p 0x1B6 w"

text \<open>\<^verbatim>\<open>os.OpenFile(p, O_APPEND|O_WRONLY, 0644)\<close>: the file must exist.\<close>

definition os_OpenAppend :: "refusal \<Rightarrow> string \<Rightarrow> world \<Rightarrow> string option \<times> world" where
  "os_OpenAppend refused p w =
     (let w1 = emit (Sys (SysOpenAppend p)) w
      in case refused KOpenAppend p of
           Some e \<Rightarrow> (Some e, w1)
         | None \<Rightarrow>
             (case files w p of
                Some (Regular _ _) \<Rightarrow> (None, w1)
              | Some (Directory _) \<Rightarrow> (Some (''open '' @ p @ '': is a directory''), w1)
              | None \<Rightarrow> (Some (''open '' @ p @ '': no such file or directory''), w1)))"

text \<open>
  A write to the file opened at \<open>p\<close>. The installer writes at the end of the file only: to
  a file it has just emptied, or to one opened for appending. A refused write leaves the
  file as it is.
\<close>

definition os_Write :: "refusal \<Rightarrow> string \<Rightarrow> string \<Rightarrow> world \<Rightarrow> string option \<times> world" where
  "os_Write refused p bytes w =
     (let w1 = emit (Sys (SysWrite p bytes)) w
      in case refused KWrite p of
           Some e \<Rightarrow> (Some e, w1)
         | None \<Rightarrow>
             (case files w p of
                Some (Regular m c) \<Rightarrow> (None, w1\<lparr>files := (files w)(p \<mapsto> Regular m (c @ bytes))\<rparr>)
              | _ \<Rightarrow> (Some (''write '' @ p @ '': bad file descriptor''), w1)))"

definition os_ReadFile :: "refusal \<Rightarrow> string \<Rightarrow> world \<Rightarrow> (string + string) \<times> world" where
  "os_ReadFile refused p w =
     (let w1 = emit (Sys (SysReadFile p)) w
      in case refused KReadFile p of
           Some e \<Rightarrow> (Inl e, w1)
         | None \<Rightarrow>
             (case files w p of
                Some (Regular _ c) \<Rightarrow> (Inr c, w1)
              | Some (Directory _) \<Rightarrow> (Inl (''read '' @ p @ '': is a directory''), w1)
              | None \<Rightarrow> (Inl (''open '' @ p @ '': no such file or directory''), w1)))"

text \<open>
  \<^verbatim>\<open>os.RemoveAll\<close> removes the path and everything below it, and succeeds when the path
  does not exist. A refused removal leaves the tree as it is.
\<close>

definition below :: "string \<Rightarrow> string \<Rightarrow> bool" where
  "below p q = (q = p \<or> strings_HasPrefix q (p @ [PathSeparator]))"

definition os_RemoveAll :: "refusal \<Rightarrow> string \<Rightarrow> world \<Rightarrow> string option \<times> world" where
  "os_RemoveAll refused p w =
     (let w1 = emit (Sys (SysRemoveAll p)) w
      in case refused KRemoveAll p of
           Some e \<Rightarrow> (Some e, w1)
         | None \<Rightarrow> (None, w1\<lparr>files := (\<lambda>q. if below p q then None else files w q)\<rparr>))"

section \<open>Archive extractor\<close>

text \<open>The fields of \<^verbatim>\<open>tar.Header\<close> that the extractor reads.\<close>

record tar_header =
  Name :: string
  Typeflag :: "8 word"
  Mode :: "64 word"

definition TypeReg :: "8 word" where
  "TypeReg = 0x30"

definition TypeDir :: "8 word" where
  "TypeDir = 0x35"

definition TypeSymlink :: "8 word" where
  "TypeSymlink = 0x32"

text \<open>
  What \<^verbatim>\<open>tr.Next()\<close> returns, call after call, until \<^verbatim>\<open>io.EOF\<close> (the end of the
  list): a header, with the bytes that reading the entry gives and the error that ends
  the reading if there is one, or an error.
\<close>

datatype tar_next = Entry tar_header string "string option" | NextError string

text \<open>
  \<^verbatim>\<open>io.Copy(f, tr)\<close> for the file opened at \<open>p\<close>: the bytes read are written, a refused
  write is the error, then the error of the reading if there is one.
\<close>

definition io_Copy ::
  "refusal \<Rightarrow> string \<Rightarrow> string \<Rightarrow> string option \<Rightarrow> world \<Rightarrow> string option \<times> world" where
  "io_Copy refused p bytes read_error w =
     (case (if bytes = [] then (None, w) else os_Write refused p bytes w) of
        (Some e, w1) \<Rightarrow> (Some e, w1)
      | (None, w1) \<Rightarrow> (read_error, w1))"

text \<open>
  The loop of \<^verbatim>\<open>extractTarGz\<close>. The result is the error returned, \<open>None\<close> for
  \<^verbatim>\<open>nil\<close>.
\<close>

fun extract_entries ::
  "refusal \<Rightarrow> string \<Rightarrow> tar_next list \<Rightarrow> world \<Rightarrow> string option \<times> world" where
  "extract_entries refused destDir [] w = (None, w)"
| "extract_entries refused destDir (NextError e # rest) w = (Some e, w)"
| "extract_entries refused destDir (Entry header bytes read_error # rest) w =
     (let target = filepath_Join [destDir, Name header] in
      if \<not> strings_HasPrefix target (destDir @ [PathSeparator])
      then (Some (''illegal file path: '' @ target), w)
      else if Typeflag header = TypeDir then
        (case os_Stat refused target w of
           (StatNotExist, w1) \<Rightarrow>
             (case os_MkdirAll refused target (ucast (Mode header)) w1 of
                (Some e, w2) \<Rightarrow> (Some e, w2)
              | (None, w2) \<Rightarrow> extract_entries refused destDir rest w2)
         | (StatError e, w1) \<Rightarrow> (Some e, w1)
         | (StatOk, w1) \<Rightarrow>
             (case os_Chmod refused target (ucast (Mode header)) w1 of
                (Some e, w2) \<Rightarrow> (Some e, w2)
              | (None, w2) \<Rightarrow> extract_entries refused destDir rest w2))
      else if Typeflag header = TypeReg then
        (case os_OpenTrunc refused target (ucast (Mode header)) w of
           (Some e, w1) \<Rightarrow> (Some e, w1)
         | (None, w1) \<Rightarrow>
             (case io_Copy refused target bytes read_error w1 of
                (Some e, w2) \<Rightarrow> (Some e, w2)
              | (None, w2) \<Rightarrow> extract_entries refused destDir rest w2))
      else extract_entries refused destDir rest w)"

text \<open>
  \<^verbatim>\<open>extractTarGz\<close>. \<open>archive\<close> is what opening and decompressing the file gives: the
  error of \<^verbatim>\<open>os.Open\<close> or \<^verbatim>\<open>gzip.NewReader\<close>, or the answers of \<^verbatim>\<open>tr.Next()\<close>.
\<close>

definition extractTarGz ::
  "refusal \<Rightarrow> string + tar_next list \<Rightarrow> string \<Rightarrow> world \<Rightarrow> string option \<times> world" where
  "extractTarGz refused archive destDir w =
     (case archive of
        Inl e \<Rightarrow> (Some e, w)
      | Inr entries \<Rightarrow> extract_entries refused destDir entries w)"

section \<open>Cleaning up and extracting in main\<close>

text \<open>
  \<^verbatim>\<open>main\<close> from the message about cleaning up to the call of \<^verbatim>\<open>extractTarGz\<close>: the
  result is the install path and the world in which the extraction starts.
\<close>

definition cleanup_old_install ::
  "refusal \<Rightarrow> bool \<Rightarrow> int \<Rightarrow> string \<Rightarrow> world \<Rightarrow> string \<times> world" where
  "cleanup_old_install refused rootMode euid homeDir w =
     (let installPath0 = filepath_Join [homeDir, ''.local'', ''go''];
          w0 = emit (Stdout (''Cleaning up old installation directory (if exists)....''
                             @ [CHR 0x0A])) w;
          cleanupPath = (if rootMode \<and> euid = 0 then ''/usr/local/go'' else installPath0);
          installPath = (if rootMode \<and> euid = 0 then ''/usr/local/go'' else installPath0)
      in case os_Stat refused cleanupPath w0 of
           (StatNotExist, w1) \<Rightarrow> (installPath, w1)
         | (_, w1) \<Rightarrow>
             (case os_RemoveAll refused cleanupPath w1 of
                (Some e, w2) \<Rightarrow>
                  (installPath,
                   emit (Stderr (''Error: Failed to clean up old installation directory: ''
                                 @ e @ [CHR 0x0A])) w2)
              | (None, w2) \<Rightarrow> (installPath, w2)))"

text \<open>
  \<^verbatim>\<open>main\<close> from there to the end of the extraction: the install path, or the end of the
  process when the extraction fails.
\<close>

definition cleanup_and_extract ::
  "refusal \<Rightarrow> bool \<Rightarrow> int \<Rightarrow> string \<Rightarrow> string + tar_next list \<Rightarrow> world
     \<Rightarrow> string proc \<times> world" where
  "cleanup_and_extract refused rootMode euid homeDir archive w =
     (case cleanup_old_install refused rootMode euid homeDir w of (installPath, w1) \<Rightarrow>
        (let w2 = emit (Stdout (''Extracting installation package to '' @ installPath
                                @ ''...'' @ [CHR 0x0A])) w1;
             extractDestDir = (if rootMode \<and> euid = 0 then ''/usr/local''
                               else filepath_Join [homeDir, ''.local''])
         in case extractTarGz refused archive extractDestDir w2 of
              (Some e, w3) \<Rightarrow>
                (Exit 1,
                 emit (Stderr (''Error: Failed to extract installation package: ''
                               @ e @ [CHR 0x0A])) w3)
            | (None, w3) \<Rightarrow>
                (Running installPath, emit (Stdout (''Extraction complete'' @ [CHR 0x0A])) w3)))"

section \<open>Reading a trace\<close>

fun syscall_path :: "syscall \<Rightarrow> string" where
  "syscall_path (SysStat p) = p"
| "syscall_path (SysMkdirAll p perm) = p"
| "syscall_path (SysChmod p perm) = p"
| "syscall_path (SysOpenTrunc p perm) = p"
| "syscall_path (SysOpenAppend p) = p"
| "syscall_path (SysWrite p bytes) = p"
| "syscall_path (SysReadFile p) = p"
| "syscall_path (SysRemoveAll p) = p"

text \<open>The calls that change the file tree.\<close>

fun changes_tree :: "syscall \<Rightarrow> bool" where
  "changes_tree (SysStat p) = False"
| "changes_tree (SysReadFile p) = False"
| "changes_tree (SysOpenAppend p) = False"
| "changes_tree c = True"

text \<open>What a step added to the trace, from the world before it and the world after it.\<close>

definition done_since :: "world \<Rightarrow> world \<Rightarrow> event list" where
  "done_since w w' = drop (length (trace w)) (trace w')"

text \<open>An event is a call on the file tree at a path strictly inside \<open>dir\<close>, or no call.\<close>

fun inside :: "string \<Rightarrow> event \<Rightarrow> bool" where
  "inside dir (Sys c) = strings_HasPrefix (syscall_path c) (dir @ [PathSeparator])"
| "inside dir e = True"

text \<open>An event is no call that changes the file tree at path \<open>p\<close>.\<close>

fun leaves_alone :: "string \<Rightarrow> event \<Rightarrow> bool" where
  "leaves_alone p (Sys c) = (\<not> (changes_tree c \<and> syscall_path c = p))"
| "leaves_alone p e = True"

text \<open>A step extends the trace by events that all satisfy \<open>P\<close>.\<close>

definition extends_by :: "(event \<Rightarrow> bool) \<Rightarrow> world \<Rightarrow> world \<Rightarrow> bool" where
  "extends_by P w w' = (\<exists>es. trace w' = trace w @ es \<and> list_all P es)"

text \<open>
  A step is confined to \<open>dir\<close>: every call it makes is at a path strictly inside \<open>dir\<close>,
  and outside \<open>dir\<close> the file tree is as before, but for missing directories on the way
  that \<^verbatim>\<open>os.MkdirAll\<close> has created.
\<close>

definition outside_kept ::
  "string \<Rightarrow> (string \<Rightarrow> node option) \<Rightarrow> (string \<Rightarrow> node option) \<Rightarrow> bool" where
  "outside_kept dir fs fs' =
     (\<forall>q. \<not> strings_HasPrefix q (dir @ [PathSeparator]) \<longrightarrow>
          fs' q = fs q \<or> (fs q = None \<and> (\<exists>perm. fs' q = Some (Directory perm))))"

definition confined :: "string \<Rightarrow> world \<Rightarrow> world \<Rightarrow> bool" where
  "confined dir w w' =
     (extends_by (inside dir) w w' \<and> outside_kept dir (files w) (files w'))"

definition no_refusal :: refusal where
  "no_refusal = (\<lambda>k p. None)"

section \<open>Environment configurator\<close>

definition systemProfileDDirextory :: string where
  "systemProfileDDirextory = ''/etc/profile.d''"

definition systemGoProfileFilename :: string where
  "systemGoProfileFilename = ''go.sh''"

text \<open>The line \<^verbatim>\<open>export PATH="<bin>:$PATH"\<close>; the double quote is the byte \<open>0x22\<close>.\<close>

definition export_line :: "string \<Rightarrow> string" where
  "export_line goBinPath = ''export PATH='' @ [CHR 0x22] @ goBinPath @ '':$PATH'' @ [CHR 0x22]"

definition printManualPathInstruction :: "string \<Rightarrow> event list" where
  "printManualPathInstruction installPath =
     [Stdout ([CHR 0x0A] @ ''Manual step required:'' @ [CHR 0x0A]),
      Stdout (''Please add Go's bin directory to your PATH environment variable'' @ [CHR 0x0A]),
      Stdout (''You can add the following line to your shell configuration file ''
              @ ''(e.g., ~/.bashrc, ~/.zshrc, ~/.profile):'' @ [CHR 0x0A]),
      Stdout ([CHR 0x0A] @ ''export PATH='' @ [CHR 0x22] @ installPath @ ''/bin:$PATH''
              @ [CHR 0x22] @ [CHR 0x0A, CHR 0x0A]),
      Stdout (''After adding the line, please run the following command to apply the changes:''
              @ [CHR 0x0A]),
      Stdout (''source ~/.bashrc  (or your shell configuration file)'' @ [CHR 0x0A])]"

definition printUserActivationInstruction :: "string \<Rightarrow> event list" where
  "printUserActivationInstruction profilePath =
     [Stdout ([CHR 0x0A] @ ''To activate the changes for your user, please either:''
              @ [CHR 0x0A]),
      Stdout (''1. Log out and log back in'' @ [CHR 0x0A]),
      Stdout (''2. Run: source '' @ profilePath @ [CHR 0x0A]),
      Stdout ([CHR 0x0A] @ ''After that, you can run '' @ [CHR 0x27] @ ''go version''
              @ [CHR 0x27] @ '' to verify the installation'' @ [CHR 0x0A])]"

definition printGlobalActivationInstruction :: "string \<Rightarrow> event list" where
  "printGlobalActivationInstruction profilePath =
     [Stdout ([CHR 0x0A] @ ''To activate the global changes, please either:'' @ [CHR 0x0A]),
      Stdout (''1. Log out and log back in (for all users)'' @ [CHR 0x0A]),
      Stdout (''2. Run: source '' @ profilePath @ [CHR 0x0A]),
      Stdout ([CHR 0x0A] @ ''After that, you can open a new terminal or run '' @ [CHR 0x27]
              @ ''go version'' @ [CHR 0x27] @ '' to verify the installation'' @ [CHR 0x0A])]"

text \<open>The three lines of every failure branch of \<^verbatim>\<open>configureUserPath\<close>.\<close>

definition manual_instead :: "string \<Rightarrow> string \<Rightarrow> world \<Rightarrow> world" where
  "manual_instead warning installPath w =
     emits ([Stderr warning,
             Stdout (''Please manually add Go's bin directory to your PATH'' @ [CHR 0x0A])]
            @ printManualPathInstruction installPath) w"

definition configureUserPath :: "refusal \<Rightarrow> string \<Rightarrow> string \<Rightarrow> world \<Rightarrow> world" where
  "configureUserPath refused homeDir installPath w =
     (let profilePath = filepath_Join [homeDir, ''.profile''];
          goBinPath = filepath_Join [installPath, ''bin''];
          exportLine = export_line goBinPath;
          w0 = emit (Stdout (''Attempting to add Go bin directory to '' @ profilePath
                             @ ''...'' @ [CHR 0x0A])) w
      in case os_Stat refused profilePath w0 of
           (StatNotExist, w1) \<Rightarrow>
             (case os_Create refused profilePath
                     (emit (Stdout (''.profile not found, creating '' @ profilePath
                                    @ ''...'' @ [CHR 0x0A])) w1) of
                (Some e, w2) \<Rightarrow>
                  manual_instead (''Warning: Failed to create '' @ profilePath @ '': '' @ e
                                  @ [CHR 0x0A]) installPath w2
              | (None, w2) \<Rightarrow>
                  (case os_Write refused profilePath (exportLine @ [CHR 0x0A]) w2 of
                     (Some e, w3) \<Rightarrow>
                       manual_instead (''Warning: Failed to write to '' @ profilePath @ '': ''
                                       @ e @ [CHR 0x0A]) installPath w3
                   | (None, w3) \<Rightarrow>
                       emits (Stdout (''Added '' @ [CHR 0x27] @ exportLine @ [CHR 0x27]
                                      @ '' to '' @ profilePath @ ''.'' @ [CHR 0x0A])
                              # printUserActivationInstruction profilePath) w3))
         | (StatError e, w1) \<Rightarrow>
             manual_instead (''Warning: Failed to check '' @ profilePath @ '': '' @ e
                             @ [CHR 0x0A]) installPath w1
         | (StatOk, w1) \<Rightarrow>
             (case os_ReadFile refused profilePath w1 of
                (Inl e, w2) \<Rightarrow>
                  manual_instead (''Warning: Failed to read '' @ profilePath @ '': '' @ e
                                  @ [CHR 0x0A]) installPath w2
              | (Inr content, w2) \<Rightarrow>
                  if strings_Contains content goBinPath
                  then emits (Stdout (profilePath @ '' already contains Go bin directory ''
                                      @ ''in PATH. Skipping modification.'' @ [CHR 0x0A])
                              # printUserActivationInstruction profilePath) w2
                  else
                    (case os_OpenAppend refused profilePath w2 of
                       (Some e, w3) \<Rightarrow>
                         manual_instead (''Warning: Failed to open '' @ profilePath
                                         @ '' for appending: '' @ e @ [CHR 0x0A])
                                        installPath w3
                     | (None, w3) \<Rightarrow>
                         (case os_Write refused profilePath
                                 ([CHR 0x0A] @ exportLine @ [CHR 0x0A]) w3 of
                            (Some e, w4) \<Rightarrow>
                              manual_instead (''Warning: Failed to write to '' @ profilePath
                                              @ '': '' @ e @ [CHR 0x0A]) installPath w4
                          | (None, w4) \<Rightarrow>
                              emits (Stdout (''Appended '' @ [CHR 0x27] @ exportLine
                                             @ [CHR 0x27] @ '' to '' @ profilePath @ ''.''
                                             @ [CHR 0x0A])
                                     # printUserActivationInstruction profilePath) w4))))"

text \<open>The two lines before every fall back of the system-wide branch, and the fall back.\<close>

definition user_instead :: "refusal \<Rightarrow> string \<Rightarrow> string \<Rightarrow> string \<Rightarrow> world \<Rightarrow> world" where
  "user_instead refused message homeDir installPath w =
     configureUserPath refused homeDir installPath
       (emits [Stderr message,
               Stdout (''Falling back to user configuration...'' @ [CHR 0x0A])] w)"

text \<open>
  The configuration of \<^verbatim>\<open>PATH\<close> at the end of \<^verbatim>\<open>main\<close>; \<open>euid\<close> is what
  \<^verbatim>\<open>os.Geteuid()\<close> returns.
\<close>

definition configure_path ::
  "refusal \<Rightarrow> bool \<Rightarrow> int \<Rightarrow> string \<Rightarrow> string \<Rightarrow> world \<Rightarrow> world" where
  "configure_path refused rootMode euid homeDir installPath w =
     (let goBinPath = filepath_Join [installPath, ''bin''] in
      if rootMode \<and> euid = 0 then
        (let w0 = emit (Stdout (''Attempting to configure PATH globally...'' @ [CHR 0x0A])) w;
             systemGoProfilePath =
               filepath_Join [systemProfileDDirextory, systemGoProfileFilename];
             exportLine = export_line goBinPath
         in case os_Stat refused systemProfileDDirextory w0 of
              (StatNotExist, w1) \<Rightarrow>
                user_instead refused
                  (''Error: Directory '' @ systemProfileDDirextory
                   @ '' does not exist. Cannot configure PATH globally.'' @ [CHR 0x0A])
                  homeDir installPath w1
            | (StatError e, w1) \<Rightarrow>
                user_instead refused
                  (''Error: Failed to check directory '' @ systemProfileDDirextory @ '': '' @ e
                   @ [CHR 0x0A])
                  homeDir installPath w1
            | (StatOk, w1) \<Rightarrow>
                (case os_Stat refused systemGoProfilePath w1 of
                   (StatNotExist, w2) \<Rightarrow>
                     (case os_Create refused systemGoProfilePath
                             (emit (Stdout (systemGoProfileFilename @ '' not found, creating ''
                                            @ systemGoProfilePath @ ''...'' @ [CHR 0x0A])) w2) of
                        (Some e, w3) \<Rightarrow>
                          user_instead refused
                            (''Warning: Failed to create '' @ systemGoProfilePath @ '': '' @ e
                             @ [CHR 0x0A])
                            homeDir installPath w3
                      | (None, w3) \<Rightarrow>
                          (case os_Write refused systemGoProfilePath
                                  (exportLine @ [CHR 0x0A]) w3 of
                             (Some e, w4) \<Rightarrow>
                               user_instead refused
                                 (''Warning: Failed to write to '' @ systemGoProfilePath
                                  @ '': '' @ e @ [CHR 0x0A])
                                 homeDir installPath w4
                           | (None, w4) \<Rightarrow>
                               emits (Stdout (''Added '' @ [CHR 0x27] @ exportLine @ [CHR 0x27]
                                              @ '' to '' @ systemGoProfilePath @ ''.''
                                              @ [CHR 0x0A])
                                      # printGlobalActivationInstruction systemGoProfilePath)
                                     w4))
                 | (StatError e, w2) \<Rightarrow>
                     user_instead refused
                       (''Warning: Failed to check '' @ systemGoProfilePath @ '': '' @ e
                        @ [CHR 0x0A])
                       homeDir installPath w2
                 | (StatOk, w2) \<Rightarrow>
                     (case os_ReadFile refused systemGoProfilePath w2 of
                        (Inl e, w3) \<Rightarrow>
                          user_instead refused
                            (''Warning: Failed to read '' @ systemGoProfilePath @ '': '' @ e
                             @ [CHR 0x0A])
                            homeDir installPath w3
                      | (Inr content, w3) \<Rightarrow>
                          if strings_Contains content goBinPath
                          then emits (Stdout (systemGoProfilePath
                                              @ '' already contains Go bin directory in PATH. ''
                                              @ ''Skipping modification.'' @ [CHR 0x0A])
                                      # printGlobalActivationInstruction systemGoProfilePath)
                                     w3
                          else
                            (case os_OpenAppend refused systemGoProfilePath w3 of
                               (Some e, w4) \<Rightarrow>
                                 user_instead refused
                                   (''Warning: Failed to open '' @ systemGoProfilePath
                                    @ '' for appending: '' @ e @ [CHR 0x0A])
                                   homeDir installPath w4
                             | (None, w4) \<Rightarrow>
                                 (case os_Write refused systemGoProfilePath
                                         ([CHR 0x0A] @ exportLine @ [CHR 0x0A]) w4 of
                                    (Some e, w5) \<Rightarrow>
                                      user_instead refused
                                        (''Warning: Failed to write to ''
                                         @ systemGoProfilePath @ '': '' @ e @ [CHR 0x0A])
                                        homeDir installPath w5
                                  | (None, w5) \<Rightarrow>
                                      emits (Stdout (''Appended '' @ [CHR 0x27] @ exportLine
                                                     @ [CHR 0x27] @ '' to ''
                                                     @ systemGoProfilePath @ ''.''
                                                     @ [CHR 0x0A])
                                             # printGlobalActivationInstruction
                                                 systemGoProfilePath)
                                            w5)))))
      else
        configureUserPath refused homeDir installPath
          (emit (Stdout (if rootMode \<and> euid \<noteq> 0
                         then ''Warning: --root flag set, but not running with root ''
                              @ ''privileges. Falling back to user configuration.''
                              @ [CHR 0x0A]
                         else ''Configuring PATH for current user...'' @ [CHR 0x0A])) w))"

section \<open>What the configuration does to one profile file\<close>

text \<open>
  Both \<^verbatim>\<open>configureUserPath\<close> and the system-wide branch treat their profile file in the
  same way. \<open>profile_after\<close> gives the node at the path \<open>p\<close> after that treatment, from the
  node before it, and whether the treatment succeeded; \<open>missing\<close> says that the directory
  of \<open>p\<close> is missing.
\<close>

definition profile_after ::
  "refusal \<Rightarrow> bool \<Rightarrow> string \<Rightarrow> string \<Rightarrow> node option \<Rightarrow> node option \<times> bool" where
  "profile_after refused missing p goBinPath n =
     (case refused KStat p of
        Some e \<Rightarrow> (n, False)
      | None \<Rightarrow>
          (case n of
             None \<Rightarrow>
               if refused KOpenTrunc p \<noteq> None \<or> missing then (None, False)
               else if refused KWrite p \<noteq> None then (Some (Regular 0x1B6 []), False)
               else (Some (Regular 0x1B6 (export_line goBinPath @ [CHR 0x0A])), True)
           | Some (Directory perm) \<Rightarrow> (n, False)
           | Some (Regular perm content) \<Rightarrow>
               if refused KReadFile p \<noteq> None then (n, False)
               else if strings_Contains content goBinPath then (n, True)
               else if refused KOpenAppend p \<noteq> None \<or> refused KWrite p \<noteq> None
               then (n, False)
               else (Some (Regular perm (content @ [CHR 0x0A] @ export_line goBinPath
                                         @ [CHR 0x0A])), True)))"

definition user_files ::
  "refusal \<Rightarrow> string \<Rightarrow> string \<Rightarrow> (string \<Rightarrow> node option) \<Rightarrow> (string \<Rightarrow> node option)" where
  "user_files refused homeDir installPath fs =
     (let p = filepath_Join [homeDir, ''.profile'']
      in fs(p := fst (profile_after refused (parent_missing fs p) p
                        (filepath_Join [installPath, ''bin'']) (fs p))))"

definition system_files ::
  "refusal \<Rightarrow> string \<Rightarrow> string \<Rightarrow> (string \<Rightarrow> node option) \<Rightarrow> (string \<Rightarrow> node option)" where
  "system_files refused homeDir installPath fs =
     (let g = filepath_Join [systemProfileDDirextory, systemGoProfileFilename]
      in if refused KStat systemProfileDDirextory \<noteq> None \<or> fs systemProfileDDirextory = None
         then user_files refused homeDir installPath fs
         else
           (case profile_after refused (parent_missing fs g) g
                   (filepath_Join [installPath, ''bin'']) (fs g) of
              (n, done) \<Rightarrow>
                if done then fs(g := n)
                else user_files refused homeDir installPath (fs(g := n))))"

text \<open>The profile file already has the bin path in it.\<close>

definition already :: "node option \<Rightarrow> string \<Rightarrow> bool" where
  "already n goBinPath =
     (case n of Some (Regular perm content) \<Rightarrow> strings_Contains content goBinPath | _ \<Rightarrow> False)"

text \<open>
  An event is a call at the path \<open>p\<close>, one that changes the file tree only if \<open>may_change\<close>,
  or it is no call.
\<close>

fun call_at :: "string \<Rightarrow> bool \<Rightarrow> event \<Rightarrow> bool" where
  "call_at p may_change (Sys c) = (syscall_path c = p \<and> (\<not> changes_tree c \<or> may_change))"
| "call_at p may_change e = True"

text \<open>
  A step leaves the path \<open>p\<close> untouched: it makes no call that changes the file tree at \<open>p\<close>,
  and the node at \<open>p\<close> is the same after it.
\<close>

definition untouched :: "string \<Rightarrow> world \<Rightarrow> world \<Rightarrow> bool" where
  "untouched p w w' = (extends_by (leaves_alone p) w w' \<and> files w' p = files w p)"

section \<open>Concrete inputs\<close>

text \<open>A catalog of one stable release with an archive for linux/amd64 and one for darwin.\<close>

definition linux_amd64_archive :: GoFile where
  "linux_amd64_archive =
     \<lparr>Filename = ''go1.22.0.linux-amd64.tar.gz'', OS = ''linux'', Arch = ''amd64'',
      Checksum = ''f6c8a87aa03b92c4b0bf3d558e28ea03006eb29db78917daec5cfb6ec1046265'',
      Size = 68988925, Kind = ''archive''\<rparr>"

definition darwin_arm64_archive :: GoFile where
  "darwin_arm64_archive =
     \<lparr>Filename = ''go1.22.0.darwin-arm64.tar.gz'', OS = ''darwin'', Arch = ''arm64'',
      Checksum = ''bf8e388b09134164717cd52d3285a4ab3b68691b80515212da0e9f56f518fb1e'',
      Size = 65302030, Kind = ''archive''\<rparr>"

definition release_1_22_0 :: GoVersionInfo where
  "release_1_22_0 =
     \<lparr>Version = ''go1.22.0'', Stable = True,
      Files = [darwin_arm64_archive, linux_amd64_archive]\<rparr>"

text \<open>
  A file tree with the home directory of a user, and an earlier installation in it. Mode
  \<open>0755\<close> is \<open>0x1ED\<close>, mode \<open>0644\<close> is \<open>0x1A4\<close>.
\<close>

definition home_tree :: "string \<Rightarrow> node option" where
  "home_tree =
     [''/home'' \<mapsto> Directory 0x1ED,
      ''/home/u'' \<mapsto> Directory 0x1ED,
      ''/home/u/.local'' \<mapsto> Directory 0x1ED,
      ''/home/u/.local/go'' \<mapsto> Directory 0x1ED,
      ''/home/u/.local/go/VERSION'' \<mapsto> Regular 0x1A4 ''go1.21.0'']"

definition home_world :: world where
  "home_world = \<lparr>files = home_tree, trace = []\<rparr>"

text \<open>Archive entries: a directory, a regular file, a symbolic link, and two that escape.\<close>

definition entry_go_dir :: tar_next where
  "entry_go_dir = Entry \<lparr>Name = ''go/'', Typeflag = TypeDir, Mode = 0x1ED\<rparr> [] None"

definition entry_version_file :: tar_next where
  "entry_version_file =
     Entry \<lparr>Name = ''go/VERSION'', Typeflag = TypeReg, Mode = 0x1A4\<rparr> ''go1.22.0'' None"

definition entry_symlink :: tar_next where
  "entry_symlink =
     Entry \<lparr>Name = ''go/bin/gofmt'', Typeflag = TypeSymlink, Mode = 0x1FF\<rparr> [] None"

definition entry_evil_file :: tar_next where
  "entry_evil_file =
     Entry \<lparr>Name = ''../../evil'', Typeflag = TypeReg, Mode = 0x1A4\<rparr> ''payload'' None"

definition entry_evil_symlink :: tar_next where
  "entry_evil_symlink =
     Entry \<lparr>Name = ''../../evil'', Typeflag = TypeSymlink, Mode = 0x1FF\<rparr> [] None"

definition refuse_removal :: refusal where
  "refuse_removal k p = (if k = KRemoveAll then Some ''permission denied'' else None)"

text \<open>
  The file tree of a system where the installer runs as root, and a refusal of every
  reading of a file.
\<close>

definition root_tree :: "string \<Rightarrow> node option" where
  "root_tree =
     [''/etc'' \<mapsto> Directory 0x1ED,
      ''/etc/profile.d'' \<mapsto> Directory 0x1ED,
      ''/root'' \<mapsto> Directory 0x1C0]"

definition root_world :: world where
  "root_world = \<lparr>files = root_tree, trace = []\<rparr>"

definition refuse_reading :: refusal where
  "refuse_reading k p = (if k = KReadFile then Some ''permission denied'' else None)"

text \<open>The home directory of a user whose profile already has the bin path.\<close>

definition configured_profile :: string where
  "configured_profile =
     ''# ~/.profile'' @ [CHR 0x0A] @ export_line ''/home/u/.local/go/bin'' @ [CHR 0x0A]"

definition configured_world :: world where
  "configured_world =
     \<lparr>files = home_tree(''/home/u/.profile'' \<mapsto> Regular 0x1A4 configured_profile),
      trace = []\<rparr>"


section \<open>The loops of the resolver pick the first match\<close>

lemma scan_files_find:
  "scan_files GOOS goArch ver fs st =
     (case find (host_archive GOOS goArch) fs of
        None \<Rightarrow> st
      | Some file \<Rightarrow> st\<lparr>versionToInstall := strings_TrimPrefix ver ''go'',
                        downloadURL := ''https://go.dev/dl/'' @ Filename file,
                        foundDownloadable := True\<rparr>)"
  by (induction fs) (simp_all add: host_archive_def)

lemma catalog_pick_Nil [simp]: "catalog_pick GOOS goArch P [] = None"
  by (simp add: catalog_pick_def)

lemma catalog_pick_Cons:
  "catalog_pick GOOS goArch P (v # vs) =
     (if P v then (case find (host_archive GOOS goArch) (Files v) of
                     Some file \<Rightarrow> Some (v, file)
                   | None \<Rightarrow> catalog_pick GOOS goArch P vs)
      else catalog_pick GOOS goArch P vs)"
  by (auto simp: catalog_pick_def split: option.splits)

lemma scan_requested_pick:
  "\<not> foundDownloadable st \<Longrightarrow>
   scan_requested GOOS goArch targetVer vs st =
     (case catalog_pick GOOS goArch (\<lambda>v. strings_TrimPrefix (Version v) ''go'' = targetVer) vs of
        None \<Rightarrow> st
      | Some (v, file) \<Rightarrow> st\<lparr>versionToInstall := strings_TrimPrefix (Version v) ''go'',
                             downloadURL := ''https://go.dev/dl/'' @ Filename file,
                             foundDownloadable := True\<rparr>)"
  by (induction vs) (simp_all add: catalog_pick_Cons scan_files_find Let_def split: option.splits)

lemma scan_stable_pick:
  "\<not> foundDownloadable st \<Longrightarrow>
   scan_stable GOOS goArch vs st =
     (case catalog_pick GOOS goArch Stable vs of
        None \<Rightarrow> st
      | Some (v, file) \<Rightarrow> st\<lparr>versionToInstall := strings_TrimPrefix (Version v) ''go'',
                             downloadURL := ''https://go.dev/dl/'' @ Filename file,
                             foundDownloadable := True\<rparr>)"
  by (induction vs) (simp_all add: catalog_pick_Cons scan_files_find Let_def split: option.splits)

lemma catalog_pick_SomeD:
  "catalog_pick GOOS goArch P vs = Some (v, file) \<Longrightarrow>
   v \<in> set vs \<and> P v \<and> file \<in> set (Files v) \<and> host_archive GOOS goArch file"
  by (induction vs)
     (auto simp: catalog_pick_Cons find_Some_iff split: if_splits option.splits)

lemma catalog_pick_None_iff:
  "catalog_pick GOOS goArch P vs = None \<longleftrightarrow>
   (\<forall>v \<in> set vs. P v \<longrightarrow> (\<forall>file \<in> set (Files v). \<not> host_archive GOOS goArch file))"
  by (induction vs)
     (auto simp: catalog_pick_Cons find_None_iff find_Some_iff split: option.splits)

section \<open>The resolver with a requested version\<close>

lemma target_loop_first:
  "target_loop GOOS goArch allVersions (t # later) rstate0 =
     (case (case allVersions of
              None \<Rightarrow> None
            | Some vs \<Rightarrow> catalog_pick GOOS goArch
                          (\<lambda>v. strings_TrimPrefix (Version v) ''go'' = completed_version t) vs) of
        Some (v, file) \<Rightarrow> (from_catalog v file, [])
      | None \<Rightarrow>
          (constructed (completed_version t) GOOS goArch,
           [Stdout (''Warning: Could not find specified version '' @ t
                    @ '' ('' @ GOOS @ ''/'' @ goArch
                    @ '') in JSON API. Attempting to construct URL...'' @ [CHR 0x0A]),
            Stdout (''Attempting to construct download URL: ''
                    @ constructed_url (completed_version t) GOOS goArch @ [CHR 0x0A])]))"
  by (cases allVersions)
     (auto simp: scan_requested_pick rstate0_def completed_version_def from_catalog_def
                 constructed_def Let_def split: option.splits)

lemma resolve_requested:
  "resolve GOOS goArch allVersions latestText (t # later) =
     (case (case allVersions of
              None \<Rightarrow> None
            | Some vs \<Rightarrow> catalog_pick GOOS goArch
                          (\<lambda>v. strings_TrimPrefix (Version v) ''go'' = completed_version t) vs) of
        Some (v, file) \<Rightarrow> (Running (from_catalog v file), [])
      | None \<Rightarrow>
          (Running (constructed (completed_version t) GOOS goArch),
           [Stdout (''Warning: Could not find specified version '' @ t
                    @ '' ('' @ GOOS @ ''/'' @ goArch
                    @ '') in JSON API. Attempting to construct URL...'' @ [CHR 0x0A]),
            Stdout (''Attempting to construct download URL: ''
                    @ constructed_url (completed_version t) GOOS goArch @ [CHR 0x0A])]))"
  unfolding resolve_def target_loop_first
  by (auto simp: from_catalog_def constructed_def split: option.splits)

lemma resolve_latest:
  "resolve GOOS goArch allVersions latestText [] =
     (case (case allVersions of
              None \<Rightarrow> None
            | Some vs \<Rightarrow> catalog_pick GOOS goArch Stable vs) of
        Some (v, file) \<Rightarrow>
          (Running (from_catalog v file),
           [Stdout (''No version specified, installing latest stable version: ''
                    @ strings_TrimPrefix (Version v) ''go'' @ [CHR 0x0A])])
      | None \<Rightarrow>
          (case latestText of
             Inl err \<Rightarrow>
               (Exit 1,
                [Stdout (''Warning: Could not find latest stable version in JSON API. ''
                   @ ''Attempting to get latest version from go.dev/VERSION?m=text ''
                   @ ''using HTTP request...'' @ [CHR 0x0A]),
                 GetLatestText,
                 Stderr (''Error: Failed to get latest Go version from text URL ''
                   @ ''via HTTP: '' @ err @ [CHR 0x0A]),
                 Stderr (''Error: Could not determine Go version to install.'' @ [CHR 0x0A])])
           | Inr latestVer \<Rightarrow>
               (Running (constructed latestVer GOOS goArch),
                [Stdout (''Warning: Could not find latest stable version in JSON API. ''
                   @ ''Attempting to get latest version from go.dev/VERSION?m=text ''
                   @ ''using HTTP request...'' @ [CHR 0x0A]),
                 GetLatestText,
                 Stdout (''Deduced latest version: '' @ latestVer
                   @ '', Constructed download URL: '' @ constructed_url latestVer GOOS goArch
                   @ [CHR 0x0A]),
                 Stdout (''No version specified, installing latest stable ''
                   @ ''version: '' @ latestVer @ [CHR 0x0A])])))"
  unfolding resolve_def
  by (cases allVersions)
     (auto simp: scan_stable_pick rstate0_def from_catalog_def constructed_def Let_def
           split: option.splits sum.splits proc.splits)

section \<open>Claims about the resolver\<close>

lemma release_1_22_0_pick:
  "catalog_pick ''linux'' ''amd64'' P [release_1_22_0] =
     (if P release_1_22_0 then Some (release_1_22_0, linux_amd64_archive) else None)"
  by (simp add: catalog_pick_Cons release_1_22_0_def host_archive_def
                linux_amd64_archive_def darwin_arm64_archive_def)

lemma release_1_22_0_stripped:
  "strings_TrimPrefix (Version release_1_22_0) ''go'' = ''1.22.0''"
  by (simp add: release_1_22_0_def strings_TrimPrefix_def strings_HasPrefix_def)

text \<open>
  Claim C2. With no version requested: when the catalog has a stable entry with an archive
  for the host, the resolver returns the first such entry's first such file, under its
  catalog file name, and does not ask for the plaintext latest version. When there is no
  such entry (or no catalog) and the plaintext request fails, the process ends with exit
  code 1 after two lines on the error stream.
\<close>

theorem C2_latest_prefers_catalog:
  "((\<exists>v \<in> set vs. Stable v \<and> (\<exists>file \<in> set (Files v). host_archive GOOS goArch file)) \<longrightarrow>
      (\<exists>v file. catalog_pick GOOS goArch Stable vs = Some (v, file)
         \<and> v \<in> set vs \<and> Stable v \<and> file \<in> set (Files v) \<and> host_archive GOOS goArch file
         \<and> fst (resolve GOOS goArch (Some vs) latestText []) =
             Running \<lparr>versionToInstall = strings_TrimPrefix (Version v) ''go'',
                      downloadURL = ''https://go.dev/dl/'' @ Filename file,
                      foundDownloadable = True\<rparr>
         \<and> GetLatestText \<notin> set (snd (resolve GOOS goArch (Some vs) latestText []))))
   \<and> ((\<forall>vs. allVersions = Some vs \<longrightarrow>
          (\<forall>v \<in> set vs. Stable v \<longrightarrow> (\<forall>file \<in> set (Files v). \<not> host_archive GOOS goArch file)))
       \<longrightarrow> fst (resolve GOOS goArch allVersions (Inl err) []) = Exit 1
         \<and> GetLatestText \<in> set (snd (resolve GOOS goArch allVersions (Inl err) []))
         \<and> Stderr (''Error: Failed to get latest Go version from text URL via HTTP: ''
                    @ err @ [CHR 0x0A])
             \<in> set (snd (resolve GOOS goArch allVersions (Inl err) []))
         \<and> Stderr (''Error: Could not determine Go version to install.'' @ [CHR 0x0A])
             \<in> set (snd (resolve GOOS goArch allVersions (Inl err) [])))"
proof (intro conjI impI)
  assume "\<exists>v \<in> set vs. Stable v \<and> (\<exists>file \<in> set (Files v). host_archive GOOS goArch file)"
  then have "catalog_pick GOOS goArch Stable vs \<noteq> None"
    by (simp add: catalog_pick_None_iff)
  then obtain v f where pick: "catalog_pick GOOS goArch Stable vs = Some (v, f)"
    by auto
  have res: "resolve GOOS goArch (Some vs) latestText [] =
               (Running (from_catalog v f),
                [Stdout (''No version specified, installing latest stable version: ''
                         @ strings_TrimPrefix (Version v) ''go'' @ [CHR 0x0A])])"
    by (simp add: resolve_latest pick)
  from catalog_pick_SomeD [OF pick] pick
  show "\<exists>v file. catalog_pick GOOS goArch Stable vs = Some (v, file)
         \<and> v \<in> set vs \<and> Stable v \<and> file \<in> set (Files v) \<and> host_archive GOOS goArch file
         \<and> fst (resolve GOOS goArch (Some vs) latestText []) =
             Running \<lparr>versionToInstall = strings_TrimPrefix (Version v) ''go'',
                      downloadURL = ''https://go.dev/dl/'' @ Filename file,
                      foundDownloadable = True\<rparr>
         \<and> GetLatestText \<notin> set (snd (resolve GOOS goArch (Some vs) latestText []))"
    unfolding res by (intro exI [of _ v] exI [of _ f]) (simp add: from_catalog_def)
next
  assume none: "\<forall>vs. allVersions = Some vs \<longrightarrow>
     (\<forall>v \<in> set vs. Stable v \<longrightarrow> (\<forall>file \<in> set (Files v). \<not> host_archive GOOS goArch file))"
  have pick: "(case allVersions of None \<Rightarrow> None
               | Some vs \<Rightarrow> catalog_pick GOOS goArch Stable vs) = None"
    using none by (cases allVersions) (simp_all add: catalog_pick_None_iff)
  have res: "resolve GOOS goArch allVersions (Inl err) [] =
       (Exit 1,
        [Stdout (''Warning: Could not find latest stable version in JSON API. ''
           @ ''Attempting to get latest version from go.dev/VERSION?m=text ''
           @ ''using HTTP request...'' @ [CHR 0x0A]),
         GetLatestText,
         Stderr (''Error: Failed to get latest Go version from text URL ''
           @ ''via HTTP: '' @ err @ [CHR 0x0A]),
         Stderr (''Error: Could not determine Go version to install.'' @ [CHR 0x0A])])"
    by (simp add: resolve_latest pick)
  show "fst (resolve GOOS goArch allVersions (Inl err) []) = Exit 1"
    by (simp add: res)
  show "GetLatestText \<in> set (snd (resolve GOOS goArch allVersions (Inl err) []))"
    by (simp add: res)
  show "Stderr (''Error: Failed to get latest Go version from text URL via HTTP: ''
                @ err @ [CHR 0x0A])
          \<in> set (snd (resolve GOOS goArch allVersions (Inl err) []))"
    by (simp add: res)
  show "Stderr (''Error: Could not determine Go version to install.'' @ [CHR 0x0A])
          \<in> set (snd (resolve GOOS goArch allVersions (Inl err) []))"
    by (simp add: res)
qed

theorem C2_latest_prefers_catalog_witness:
  "(\<exists>v \<in> set [release_1_22_0].
        Stable v \<and> (\<exists>file \<in> set (Files v). host_archive ''linux'' ''amd64'' file))
   \<and> fst (resolve ''linux'' ''amd64'' (Some [release_1_22_0]) (Inl ''no route to host'') []) =
        Running \<lparr>versionToInstall = ''1.22.0'',
                 downloadURL = ''https://go.dev/dl/go1.22.0.linux-amd64.tar.gz'',
                 foundDownloadable = True\<rparr>
   \<and> GetLatestText
        \<notin> set (snd (resolve ''linux'' ''amd64'' (Some [release_1_22_0]) (Inl ''no route to host'') []))
   \<and> fst (resolve ''linux'' ''amd64'' None (Inl ''no route to host'') []) = Exit 1"
proof -
  have h: "\<exists>v \<in> set [release_1_22_0].
        Stable v \<and> (\<exists>file \<in> set (Files v). host_archive ''linux'' ''amd64'' file)"
    by (simp add: release_1_22_0_def host_archive_def linux_amd64_archive_def)
  have n: "\<forall>vs. (None :: GoVersionInfo list option) = Some vs \<longrightarrow>
          (\<forall>v \<in> set vs. Stable v \<longrightarrow>
             (\<forall>file \<in> set (Files v). \<not> host_archive ''linux'' ''amd64'' file))"
    by simp
  have st: "Stable release_1_22_0"
    by (simp add: release_1_22_0_def)
  note c2 = C2_latest_prefers_catalog
    [of "[release_1_22_0]" "''linux''" "''amd64''" "Inl ''no route to host''" None
        "''no route to host''"]
  from c2 h have
    "\<exists>v file. catalog_pick ''linux'' ''amd64'' Stable [release_1_22_0] = Some (v, file)
       \<and> fst (resolve ''linux'' ''amd64'' (Some [release_1_22_0]) (Inl ''no route to host'') []) =
             Running \<lparr>versionToInstall = strings_TrimPrefix (Version v) ''go'',
                      downloadURL = ''https://go.dev/dl/'' @ Filename file,
                      foundDownloadable = True\<rparr>
       \<and> GetLatestText
            \<notin> set (snd (resolve ''linux'' ''amd64'' (Some [release_1_22_0])
                           (Inl ''no route to host'') []))"
    by blast
  then have a:
    "fst (resolve ''linux'' ''amd64'' (Some [release_1_22_0]) (Inl ''no route to host'') []) =
        Running \<lparr>versionToInstall = ''1.22.0'',
                 downloadURL = ''https://go.dev/dl/go1.22.0.linux-amd64.tar.gz'',
                 foundDownloadable = True\<rparr>
     \<and> GetLatestText
        \<notin> set (snd (resolve ''linux'' ''amd64'' (Some [release_1_22_0])
                       (Inl ''no route to host'') []))"
    by (auto simp: release_1_22_0_pick st release_1_22_0_stripped linux_amd64_archive_def)
  from c2 n have b: "fst (resolve ''linux'' ''amd64'' None (Inl ''no route to host'') []) = Exit 1"
    by blast
  from h a b show ?thesis by blast
qed

lemma TrimPrefix_go_eq:
  "strings_TrimPrefix s ''go'' = x \<longleftrightarrow> s = ''go'' @ x \<or> take 2 s \<noteq> ''go'' \<and> s = x"
proof -
  have l: "length ''go'' = 2"
    by simp
  show ?thesis
  proof (cases "take 2 s = ''go''")
    case True
    then have t: "strings_TrimPrefix s ''go'' = drop 2 s"
      unfolding strings_TrimPrefix_def strings_HasPrefix_def l by (simp only: simp_thms if_True)
    from True have "s = ''go'' @ drop 2 s"
      by (metis append_take_drop_id)
    then have "drop 2 s = x \<longleftrightarrow> s = ''go'' @ x"
      by (metis same_append_eq)
    with True t show ?thesis
      by (simp only: simp_thms)
  next
    case False
    then have t: "strings_TrimPrefix s ''go'' = s"
      unfolding strings_TrimPrefix_def strings_HasPrefix_def l by (simp only: simp_thms if_False)
    have "s \<noteq> ''go'' @ x"
    proof
      assume "s = ''go'' @ x"
      then have "take 2 s = ''go''" by simp
      with False show False by contradiction
    qed
    with False t show ?thesis
      by (simp only: simp_thms)
  qed
qed

lemma completed_version_filter:
  "completed_version t =
     (if length (filter (\<lambda>c. c = CHR ''.'') t) = 1 then t @ ''.0'' else t)"
  by (simp add: completed_version_def strings_Count_def)

text \<open>
  Claim C5. The string looked up for a requested version \<open>t\<close> is \<open>t\<close> with \<open>.0\<close> appended
  when \<open>t\<close> has exactly one dot, and \<open>t\<close> itself otherwise. A catalog entry is a match
  exactly when its version is \<open>go\<close> followed by that string, or does not start with \<open>go\<close>
  and is that string. The resolver installs the first host archive of the first matching
  entry that has one, and prints nothing; when no matching entry has a host archive it
  prints the warning and constructs the URL. So it prints nothing exactly when some
  matching entry has a host archive.
\<close>

theorem C5_lookup_of_requested_version:
  "resolve GOOS goArch (Some vs) latestText (t # later) =
     (let target = (if length (filter (\<lambda>c. c = CHR ''.'') t) = 1 then t @ ''.0'' else t) in
      case catalog_pick GOOS goArch
             (\<lambda>v. Version v = ''go'' @ target
                   \<or> take 2 (Version v) \<noteq> ''go'' \<and> Version v = target) vs of
        Some (v, file) \<Rightarrow>
          (Running \<lparr>versionToInstall = target,
                    downloadURL = ''https://go.dev/dl/'' @ Filename file,
                    foundDownloadable = True\<rparr>,
           [])
      | None \<Rightarrow>
          (Running \<lparr>versionToInstall = target,
                    downloadURL = ''https://go.dev/dl/go'' @ target @ ''.'' @ GOOS @ ''-''
                                  @ goArch @ ''.tar.gz'',
                    foundDownloadable = True\<rparr>,
           [Stdout (''Warning: Could not find specified version '' @ t
                    @ '' ('' @ GOOS @ ''/'' @ goArch
                    @ '') in JSON API. Attempting to construct URL...'' @ [CHR 0x0A]),
            Stdout (''Attempting to construct download URL: ''
                    @ ''https://go.dev/dl/go'' @ target @ ''.'' @ GOOS @ ''-''
                    @ goArch @ ''.tar.gz'' @ [CHR 0x0A])]))
   \<and> (snd (resolve GOOS goArch (Some vs) latestText (t # later)) = [] \<longleftrightarrow>
        (\<exists>v \<in> set vs.
            (Version v = ''go'' @ (if length (filter (\<lambda>c. c = CHR ''.'') t) = 1
                                  then t @ ''.0'' else t)
             \<or> take 2 (Version v) \<noteq> ''go''
               \<and> Version v = (if length (filter (\<lambda>c. c = CHR ''.'') t) = 1
                                then t @ ''.0'' else t))
            \<and> (\<exists>file \<in> set (Files v).
                   OS file = GOOS \<and> Arch file = goArch \<and> Kind file = ''archive'')))"
proof -
  define target where "target = completed_version t"
  define P :: "GoVersionInfo \<Rightarrow> bool" where "P = (\<lambda>v. Version v = ''go'' @ target
                           \<or> take 2 (Version v) \<noteq> ''go'' \<and> Version v = target)"
  have tf: "(if length (filter (\<lambda>c. c = CHR ''.'') t) = 1 then t @ ''.0'' else t) = target"
    by (simp add: target_def completed_version_filter)
  have PP: "(\<lambda>v. strings_TrimPrefix (Version v) ''go'' = target) = P"
    by (simp add: P_def TrimPrefix_go_eq)
  have stripped: "strings_TrimPrefix (Version v) ''go'' = target"
    if "catalog_pick GOOS goArch P vs = Some (v, f)" for v f
    using catalog_pick_SomeD [OF that] by (simp add: PP [symmetric])
  have res: "resolve GOOS goArch (Some vs) latestText (t # later) =
     (case catalog_pick GOOS goArch P vs of
        Some (v, file) \<Rightarrow>
          (Running \<lparr>versionToInstall = target,
                    downloadURL = ''https://go.dev/dl/'' @ Filename file,
                    foundDownloadable = True\<rparr>,
           [])
      | None \<Rightarrow>
          (Running \<lparr>versionToInstall = target,
                    downloadURL = ''https://go.dev/dl/go'' @ target @ ''.'' @ GOOS @ ''-''
                                  @ goArch @ ''.tar.gz'',
                    foundDownloadable = True\<rparr>,
           [Stdout (''Warning: Could not find specified version '' @ t
                    @ '' ('' @ GOOS @ ''/'' @ goArch
                    @ '') in JSON API. Attempting to construct URL...'' @ [CHR 0x0A]),
            Stdout (''Attempting to construct download URL: ''
                    @ ''https://go.dev/dl/go'' @ target @ ''.'' @ GOOS @ ''-''
                    @ goArch @ ''.tar.gz'' @ [CHR 0x0A])]))"
    using stripped
    by (simp add: resolve_requested target_def [symmetric] PP from_catalog_def constructed_def
                  constructed_url_def
             split: option.splits)
  have hit: "snd (resolve GOOS goArch (Some vs) latestText (t # later)) = [] \<longleftrightarrow>
             catalog_pick GOOS goArch P vs \<noteq> None"
    unfolding res by (auto split: option.splits)
  have ex: "catalog_pick GOOS goArch P vs \<noteq> None \<longleftrightarrow>
            (\<exists>v \<in> set vs. P v \<and> (\<exists>file \<in> set (Files v).
                 OS file = GOOS \<and> Arch file = goArch \<and> Kind file = ''archive''))"
    by (auto simp: catalog_pick_None_iff host_archive_def)
  show ?thesis
    unfolding tf Let_def
    using res hit ex by (simp add: P_def)
qed

theorem C5_lookup_of_requested_version_witness:
  "resolve ''linux'' ''amd64'' (Some [release_1_22_0]) (Inl ''no route to host'') [''1.22''] =
     (Running \<lparr>versionToInstall = ''1.22.0'',
               downloadURL = ''https://go.dev/dl/go1.22.0.linux-amd64.tar.gz'',
               foundDownloadable = True\<rparr>,
      [])
   \<and> resolve ''linux'' ''amd64'' (Some [release_1_22_0]) (Inl ''no route to host'')
        [''1.22.0''] =
     (Running \<lparr>versionToInstall = ''1.22.0'',
               downloadURL = ''https://go.dev/dl/go1.22.0.linux-amd64.tar.gz'',
               foundDownloadable = True\<rparr>,
      [])
   \<and> fst (resolve ''linux'' ''amd64'' (Some [release_1_22_0]) (Inl ''no route to host'')
            [''1.22.2'']) =
     Running \<lparr>versionToInstall = ''1.22.2'',
              downloadURL = ''https://go.dev/dl/go1.22.2.linux-amd64.tar.gz'',
              foundDownloadable = True\<rparr>
   \<and> snd (resolve ''linux'' ''amd64'' (Some [release_1_22_0]) (Inl ''no route to host'')
            [''1.22.2'']) \<noteq> []"
proof -
  note t = C5_lookup_of_requested_version
             [of "''linux''" "''amd64''" "[release_1_22_0]" "Inl ''no route to host''" _ "[]"]
  have v: "Version release_1_22_0 = ''go1.22.0''"
    by (simp add: release_1_22_0_def)
  have 1: "resolve ''linux'' ''amd64'' (Some [release_1_22_0]) (Inl ''no route to host'')
             [''1.22''] =
           (Running \<lparr>versionToInstall = ''1.22.0'',
                     downloadURL = ''https://go.dev/dl/go1.22.0.linux-amd64.tar.gz'',
                     foundDownloadable = True\<rparr>,
            [])"
    using conjunct1 [OF t [of "''1.22''"]]
    by (simp add: release_1_22_0_pick v linux_amd64_archive_def)
  have 2: "resolve ''linux'' ''amd64'' (Some [release_1_22_0]) (Inl ''no route to host'')
             [''1.22.0''] =
           (Running \<lparr>versionToInstall = ''1.22.0'',
                     downloadURL = ''https://go.dev/dl/go1.22.0.linux-amd64.tar.gz'',
                     foundDownloadable = True\<rparr>,
            [])"
    using conjunct1 [OF t [of "''1.22.0''"]]
    by (simp add: release_1_22_0_pick v linux_amd64_archive_def)
  have r3: "resolve ''linux'' ''amd64'' (Some [release_1_22_0]) (Inl ''no route to host'')
             [''1.22.2''] =
           (Running \<lparr>versionToInstall = ''1.22.2'',
                     downloadURL = ''https://go.dev/dl/go1.22.2.linux-amd64.tar.gz'',
                     foundDownloadable = True\<rparr>,
            [Stdout (''Warning: Could not find specified version 1.22.2 (linux/amd64) in ''
                     @ ''JSON API. Attempting to construct URL...'' @ [CHR 0x0A]),
             Stdout (''Attempting to construct download URL: ''
                     @ ''https://go.dev/dl/go1.22.2.linux-amd64.tar.gz'' @ [CHR 0x0A])])"
    using conjunct1 [OF t [of "''1.22.2''"]]
    by (simp add: release_1_22_0_pick v)
  from r3 have 3: "fst (resolve ''linux'' ''amd64'' (Some [release_1_22_0])
                          (Inl ''no route to host'') [''1.22.2'']) =
                   Running \<lparr>versionToInstall = ''1.22.2'',
                            downloadURL = ''https://go.dev/dl/go1.22.2.linux-amd64.tar.gz'',
                            foundDownloadable = True\<rparr>"
    by simp
  from r3 have 4: "snd (resolve ''linux'' ''amd64'' (Some [release_1_22_0])
                          (Inl ''no route to host'') [''1.22.2'']) \<noteq> []"
    by simp
  from 1 2 3 4 show ?thesis by blast
qed

text \<open>
  Claim C3, as stated, promises the supplied version string. For \<open>1.22\<close> and no catalog
  the resolver returns \<open>1.22.0\<close>, not \<open>1.22\<close>.
\<close>

theorem C3_supplied_string_counterexample:
  "fst (resolve ''linux'' ''amd64'' None (Inl ''no route to host'') [''1.22'']) =
     Running \<lparr>versionToInstall = ''1.22.0'',
              downloadURL = ''https://go.dev/dl/go1.22.0.linux-amd64.tar.gz'',
              foundDownloadable = True\<rparr>
   \<and> fst (resolve ''linux'' ''amd64'' None (Inl ''no route to host'') [''1.22'']) \<noteq>
     Running \<lparr>versionToInstall = ''1.22'',
              downloadURL = ''https://go.dev/dl/go1.22.linux-amd64.tar.gz'',
              foundDownloadable = True\<rparr>"
  by (simp add: resolve_requested completed_version_def strings_Count_def constructed_def
                constructed_url_def)

text \<open>
  Claim C3, amended. When no catalog entry with the completed version (the first requested
  string, with \<open>.0\<close> appended if it has exactly one dot) has an archive for the host, or
  there is no catalog, the resolver does not end the process: it returns the completed
  version and the URL constructed from it, it does not ask for the plaintext latest
  version, and its answer is the same whatever that request would return.
\<close>

theorem C3_no_match_constructs_url:
  assumes "\<forall>vs. allVersions = Some vs \<longrightarrow>
             (\<forall>v \<in> set vs. strings_TrimPrefix (Version v) ''go'' = completed_version t \<longrightarrow>
                (\<forall>file \<in> set (Files v). \<not> host_archive GOOS goArch file))"
  shows "fst (resolve GOOS goArch allVersions latestText (t # later)) =
           Running \<lparr>versionToInstall = completed_version t,
                    downloadURL = ''https://go.dev/dl/go'' @ completed_version t @ ''.''
                                  @ GOOS @ ''-'' @ goArch @ ''.tar.gz'',
                    foundDownloadable = True\<rparr>
       \<and> GetLatestText \<notin> set (snd (resolve GOOS goArch allVersions latestText (t # later)))
       \<and> resolve GOOS goArch allVersions latestText' (t # later) =
           resolve GOOS goArch allVersions latestText (t # later)"
proof -
  have "(case allVersions of None \<Rightarrow> None
         | Some vs \<Rightarrow> catalog_pick GOOS goArch
              (\<lambda>v. strings_TrimPrefix (Version v) ''go'' = completed_version t) vs) = None"
    using assms by (cases allVersions) (simp_all add: catalog_pick_None_iff)
  then show ?thesis
    by (simp add: resolve_requested constructed_def constructed_url_def)
qed

theorem C3_no_match_constructs_url_witness:
  "fst (resolve ''linux'' ''amd64'' (Some [release_1_22_0]) (Inl ''no route to host'')
          [''1.21.0'']) =
     Running \<lparr>versionToInstall = ''1.21.0'',
              downloadURL = ''https://go.dev/dl/go1.21.0.linux-amd64.tar.gz'',
              foundDownloadable = True\<rparr>
   \<and> GetLatestText \<notin> set (snd (resolve ''linux'' ''amd64'' (Some [release_1_22_0])
                                  (Inl ''no route to host'') [''1.21.0'']))"
proof -
  have c: "completed_version ''1.21.0'' = ''1.21.0''"
    by (simp add: completed_version_def strings_Count_def)
  have h: "\<forall>vs. Some [release_1_22_0] = Some vs \<longrightarrow>
             (\<forall>v \<in> set vs. strings_TrimPrefix (Version v) ''go'' = completed_version ''1.21.0'' \<longrightarrow>
                (\<forall>file \<in> set (Files v). \<not> host_archive ''linux'' ''amd64'' file))"
    by (simp add: c release_1_22_0_stripped)
  from C3_no_match_constructs_url
         [OF h, of "Inl ''no route to host''" "[]" "Inl ''no route to host''"]
  show ?thesis by (simp add: c)
qed

text \<open>
  Claim C4, as stated, has a later candidate with a catalog match chosen when every
  earlier candidate has none. Two versions are requested, \<open>9.9.9\<close> first, which the
  catalog does not have, then \<open>1.22.0\<close>, which it has for the host and which the resolver
  installs from the catalog when it is requested alone. The resolver answers with the
  constructed URL of \<open>9.9.9\<close>.
\<close>

theorem C4_later_candidate_counterexample:
  "resolve ''linux'' ''amd64'' (Some [release_1_22_0]) (Inl ''no route to host'')
     [''1.22.0''] =
     (Running \<lparr>versionToInstall = ''1.22.0'',
               downloadURL = ''https://go.dev/dl/go1.22.0.linux-amd64.tar.gz'',
               foundDownloadable = True\<rparr>,
      [])
   \<and> fst (resolve ''linux'' ''amd64'' (Some [release_1_22_0]) (Inl ''no route to host'')
          [''9.9.9'', ''1.22.0'']) =
     Running \<lparr>versionToInstall = ''9.9.9'',
              downloadURL = ''https://go.dev/dl/go9.9.9.linux-amd64.tar.gz'',
              foundDownloadable = True\<rparr>"
  by (simp add: resolve_requested completed_version_def strings_Count_def constructed_def
                constructed_url_def release_1_22_0_pick release_1_22_0_stripped
                from_catalog_def linux_amd64_archive_def)

text \<open>
  Claim C4, amended. When several versions are requested, the resolver considers the first
  one only: its answer, and what it prints, are those for the first candidate requested
  alone, whatever the later candidates are. The first candidate is installed from the
  catalog when an entry with its completed version has a host archive (the first such
  entry, its first such file), and from the constructed URL otherwise. A later candidate
  is never chosen.
\<close>

theorem C4_first_candidate_only:
  "resolve GOOS goArch allVersions latestText (t # later) =
     resolve GOOS goArch allVersions latestText [t]
   \<and> fst (resolve GOOS goArch allVersions latestText (t # later)) =
       (case (case allVersions of
                None \<Rightarrow> None
              | Some vs \<Rightarrow>
                  catalog_pick GOOS goArch
                    (\<lambda>v. strings_TrimPrefix (Version v) ''go'' = completed_version t) vs) of
          Some (v, file) \<Rightarrow>
            Running \<lparr>versionToInstall = completed_version t,
                     downloadURL = ''https://go.dev/dl/'' @ Filename file,
                     foundDownloadable = True\<rparr>
        | None \<Rightarrow>
            Running \<lparr>versionToInstall = completed_version t,
                     downloadURL = ''https://go.dev/dl/go'' @ completed_version t @ ''.''
                                   @ GOOS @ ''-'' @ goArch @ ''.tar.gz'',
                     foundDownloadable = True\<rparr>)"
proof -
  have "strings_TrimPrefix (Version v) ''go'' = completed_version t"
    if "catalog_pick GOOS goArch
          (\<lambda>v. strings_TrimPrefix (Version v) ''go'' = completed_version t) vs = Some (v, f)"
    for vs v f
    using catalog_pick_SomeD [OF that] by simp
  then show ?thesis
    by (cases allVersions)
       (auto simp: resolve_requested from_catalog_def constructed_def constructed_url_def
             split: option.splits)
qed

theorem C4_first_candidate_only_witness:
  "resolve ''linux'' ''amd64'' (Some [release_1_22_0]) (Inl ''no route to host'')
     [''9.9.9'', ''1.22.0''] =
   resolve ''linux'' ''amd64'' (Some [release_1_22_0]) (Inl ''no route to host'') [''9.9.9'']
   \<and> fst (resolve ''linux'' ''amd64'' (Some [release_1_22_0]) (Inl ''no route to host'')
          [''9.9.9'', ''1.22.0'']) =
     Running \<lparr>versionToInstall = ''9.9.9'',
              downloadURL = ''https://go.dev/dl/go9.9.9.linux-amd64.tar.gz'',
              foundDownloadable = True\<rparr>
   \<and> fst (resolve ''linux'' ''amd64'' (Some [release_1_22_0]) (Inl ''no route to host'')
          [''1.22.0'', ''9.9.9'']) =
     Running \<lparr>versionToInstall = ''1.22.0'',
              downloadURL = ''https://go.dev/dl/go1.22.0.linux-amd64.tar.gz'',
              foundDownloadable = True\<rparr>"
proof -
  note t = C4_first_candidate_only
             [of "''linux''" "''amd64''" "Some [release_1_22_0]" "Inl ''no route to host''"]
  have c9: "completed_version ''9.9.9'' = ''9.9.9''"
    by (simp add: completed_version_def strings_Count_def)
  have c1: "completed_version ''1.22.0'' = ''1.22.0''"
    by (simp add: completed_version_def strings_Count_def)
  have 1: "resolve ''linux'' ''amd64'' (Some [release_1_22_0]) (Inl ''no route to host'')
             [''9.9.9'', ''1.22.0''] =
           resolve ''linux'' ''amd64'' (Some [release_1_22_0]) (Inl ''no route to host'')
             [''9.9.9'']"
    by (rule conjunct1 [OF t [of "''9.9.9''" "[''1.22.0'']"]])
  have 2: "fst (resolve ''linux'' ''amd64'' (Some [release_1_22_0]) (Inl ''no route to host'')
                  [''9.9.9'', ''1.22.0'']) =
           Running \<lparr>versionToInstall = ''9.9.9'',
                    downloadURL = ''https://go.dev/dl/go9.9.9.linux-amd64.tar.gz'',
                    foundDownloadable = True\<rparr>"
    using conjunct2 [OF t [of "''9.9.9''" "[''1.22.0'']"]]
    by (simp add: c9 release_1_22_0_pick release_1_22_0_stripped)
  have 3: "fst (resolve ''linux'' ''amd64'' (Some [release_1_22_0]) (Inl ''no route to host'')
                  [''1.22.0'', ''9.9.9'']) =
           Running \<lparr>versionToInstall = ''1.22.0'',
                    downloadURL = ''https://go.dev/dl/go1.22.0.linux-amd64.tar.gz'',
                    foundDownloadable = True\<rparr>"
    using conjunct2 [OF t [of "''1.22.0''" "[''9.9.9'']"]]
    by (simp add: c1 release_1_22_0_pick release_1_22_0_stripped linux_amd64_archive_def)
  from 1 2 3 show ?thesis by blast
qed

section \<open>Claims about the architecture mapper\<close>



lemma mapArchitecture_nonempty:
  "detectedArch \<noteq> [] \<Longrightarrow> mapArchitecture unicode_lower detectedArch \<noteq> []"
  by (simp add: mapArchitecture_def Let_def)

lemma ToLower_Nil: "strings_ToLower unicode_lower [] = []"
  by (simp add: strings_ToLower_def)

lemma mapArchitecture_Nil: "mapArchitecture unicode_lower [] = []"
  by (simp add: mapArchitecture_def ToLower_Nil)

lemma detect_goArch_exit_iff:
  "fst (detect_goArch unicode_lower GOOS GOARCH (kernelVersion, detectedArch, err)) = Exit 1
     \<longleftrightarrow> err = None \<and> detectedArch = []"
proof (cases err)
  case None
  show ?thesis
  proof (cases "detectedArch = []")
    case True
    with None show ?thesis by (simp add: detect_goArch_def mapArchitecture_Nil)
  next
    case False
    with None mapArchitecture_nonempty [OF False, of unicode_lower] show ?thesis
      by (simp add: detect_goArch_def Let_def)
  qed
next
  case (Some e)
  then show ?thesis by (simp add: detect_goArch_def)
qed







section \<open>Claims about the extractor\<close>

lemma trace_emit [simp]: "trace (emit e w) = trace w @ [e]"
  by (simp add: emit_def)

lemma files_emit [simp]: "files (emit e w) = files w"
  by (simp add: emit_def)

lemma extends_by_refl: "extends_by P w w"
  by (simp add: extends_by_def)

lemma extends_by_trans: "extends_by P w w1 \<Longrightarrow> extends_by P w1 w2 \<Longrightarrow> extends_by P w w2"
  by (auto simp: extends_by_def)

lemma extends_by_done_since: "extends_by P w w' \<Longrightarrow> list_all P (done_since w w')"
  by (auto simp: extends_by_def done_since_def)

lemma extends_by_emit: "P e \<Longrightarrow> extends_by P w (emit e w)"
  by (simp add: extends_by_def)

lemma os_Stat_extends:
  "os_Stat refused p w = (r, w') \<Longrightarrow> P (Sys (SysStat p)) \<Longrightarrow> extends_by P w w'"
  by (auto simp: os_Stat_def extends_by_def)

lemma os_MkdirAll_extends:
  "os_MkdirAll refused p perm w = (r, w') \<Longrightarrow> P (Sys (SysMkdirAll p perm)) \<Longrightarrow> extends_by P w w'"
  by (auto simp: os_MkdirAll_def extends_by_def Let_def split: option.splits if_splits)

lemma os_Chmod_extends:
  "os_Chmod refused p perm w = (r, w') \<Longrightarrow> P (Sys (SysChmod p perm)) \<Longrightarrow> extends_by P w w'"
  by (auto simp: os_Chmod_def extends_by_def Let_def split: option.splits node.splits)

lemma os_OpenTrunc_extends:
  "os_OpenTrunc refused p perm w = (r, w') \<Longrightarrow> P (Sys (SysOpenTrunc p perm)) \<Longrightarrow> extends_by P w w'"
  by (auto simp: os_OpenTrunc_def extends_by_def Let_def
           split: option.splits node.splits if_splits)

lemma os_OpenAppend_extends:
  "os_OpenAppend refused p w = (r, w') \<Longrightarrow> P (Sys (SysOpenAppend p)) \<Longrightarrow> extends_by P w w'"
  by (auto simp: os_OpenAppend_def extends_by_def Let_def split: option.splits node.splits)

lemma os_Write_extends:
  "os_Write refused p bytes w = (r, w') \<Longrightarrow> P (Sys (SysWrite p bytes)) \<Longrightarrow> extends_by P w w'"
  by (auto simp: os_Write_def extends_by_def Let_def split: option.splits node.splits)

lemma os_ReadFile_extends:
  "os_ReadFile refused p w = (r, w') \<Longrightarrow> P (Sys (SysReadFile p)) \<Longrightarrow> extends_by P w w'"
  by (auto simp: os_ReadFile_def extends_by_def Let_def split: option.splits node.splits)

lemma os_RemoveAll_extends:
  "os_RemoveAll refused p w = (r, w') \<Longrightarrow> P (Sys (SysRemoveAll p)) \<Longrightarrow> extends_by P w w'"
  by (auto simp: os_RemoveAll_def extends_by_def Let_def split: option.splits)

lemma io_Copy_extends:
  "io_Copy refused p bytes rerr w = (r, w') \<Longrightarrow> P (Sys (SysWrite p bytes)) \<Longrightarrow> extends_by P w w'"
  by (auto simp: io_Copy_def extends_by_refl split: if_splits prod.splits option.splits
           dest: os_Write_extends)

lemma confined_refl: "confined dir w w"
  by (simp add: confined_def extends_by_refl outside_kept_def)

lemma outside_kept_trans:
  "outside_kept dir a b \<Longrightarrow> outside_kept dir b c \<Longrightarrow> outside_kept dir a c"
  unfolding outside_kept_def by metis

lemma confined_trans: "confined dir w w1 \<Longrightarrow> confined dir w1 w2 \<Longrightarrow> confined dir w w2"
  by (auto simp: confined_def intro: extends_by_trans outside_kept_trans)

lemma os_Stat_files: "os_Stat refused p w = (r, w') \<Longrightarrow> files w' = files w"
  by (auto simp: os_Stat_def)

lemma os_Stat_confined:
  "os_Stat refused p w = (r, w') \<Longrightarrow> strings_HasPrefix p (dir @ [PathSeparator])
   \<Longrightarrow> confined dir w w'"
  by (simp add: confined_def os_Stat_extends os_Stat_files outside_kept_def)

lemma os_MkdirAll_confined:
  "os_MkdirAll refused p perm w = (r, w') \<Longrightarrow> strings_HasPrefix p (dir @ [PathSeparator])
   \<Longrightarrow> confined dir w w'"
  unfolding confined_def
  by (rule conjI, erule os_MkdirAll_extends, simp)
     (auto simp: os_MkdirAll_def outside_kept_def Let_def split: option.splits if_splits)

lemma os_Chmod_confined:
  "os_Chmod refused p perm w = (r, w') \<Longrightarrow> strings_HasPrefix p (dir @ [PathSeparator])
   \<Longrightarrow> confined dir w w'"
  unfolding confined_def
  by (rule conjI, erule os_Chmod_extends, simp)
     (auto simp: os_Chmod_def outside_kept_def Let_def
           split: option.splits node.splits if_splits)

lemma os_OpenTrunc_confined:
  "os_OpenTrunc refused p perm w = (r, w') \<Longrightarrow> strings_HasPrefix p (dir @ [PathSeparator])
   \<Longrightarrow> confined dir w w'"
  unfolding confined_def
  by (rule conjI, erule os_OpenTrunc_extends, simp)
     (auto simp: os_OpenTrunc_def outside_kept_def Let_def
           split: option.splits node.splits if_splits)

lemma os_Write_confined:
  "os_Write refused p bytes w = (r, w') \<Longrightarrow> strings_HasPrefix p (dir @ [PathSeparator])
   \<Longrightarrow> confined dir w w'"
  unfolding confined_def
  by (rule conjI, erule os_Write_extends, simp)
     (auto simp: os_Write_def outside_kept_def Let_def
           split: option.splits node.splits if_splits)

lemma io_Copy_confined:
  "io_Copy refused p bytes rerr w = (r, w') \<Longrightarrow> strings_HasPrefix p (dir @ [PathSeparator])
   \<Longrightarrow> confined dir w w'"
  by (auto simp: io_Copy_def confined_refl split: if_splits prod.splits option.splits
           dest: os_Write_confined)

lemma extract_entries_confined:
  "extract_entries refused destDir entries w = (r, w') \<Longrightarrow> confined destDir w w'"
proof (induction entries arbitrary: w r w')
  case Nil
  then show ?case by (simp add: confined_refl)
next
  case (Cons x rest)
  note IH = Cons.IH
  show ?case
  proof (cases x)
    case (NextError e)
    with Cons.prems show ?thesis by (simp add: confined_refl)
  next
    case (Entry header bytes read_error)
    let ?target = "filepath_Join [destDir, Name header]"
    let ?perm = "ucast (Mode header) :: FileMode"
    show ?thesis
    proof (cases "strings_HasPrefix ?target (destDir @ [PathSeparator])")
      case False
      with Cons.prems Entry show ?thesis by (simp add: confined_refl)
    next
      case ok: True
      consider (dir) "Typeflag header = TypeDir"
        | (reg) "Typeflag header \<noteq> TypeDir" "Typeflag header = TypeReg"
        | (other) "Typeflag header \<noteq> TypeDir" "Typeflag header \<noteq> TypeReg"
        by blast
      then show ?thesis
      proof cases
        case dir
        obtain s w1 where st: "os_Stat refused ?target w = (s, w1)"
          by (cases "os_Stat refused ?target w")
        have e1: "confined destDir w w1"
          using os_Stat_confined [OF st] ok by simp
        show ?thesis
        proof (cases s)
          case StatOk
          obtain c w2 where ch: "os_Chmod refused ?target ?perm w1 = (c, w2)"
            by (cases "os_Chmod refused ?target ?perm w1")
          have e2: "confined destDir w1 w2"
            using os_Chmod_confined [OF ch] ok by simp
          have "confined destDir w2 w'"
            using Cons.prems Entry ok dir st StatOk ch
            by (cases c) (auto simp: confined_refl intro: IH)
          with e1 e2 show ?thesis by (blast intro: confined_trans)
        next
          case StatNotExist
          obtain c w2 where mk: "os_MkdirAll refused ?target ?perm w1 = (c, w2)"
            by (cases "os_MkdirAll refused ?target ?perm w1")
          have e2: "confined destDir w1 w2"
            using os_MkdirAll_confined [OF mk] ok by simp
          have "confined destDir w2 w'"
            using Cons.prems Entry ok dir st StatNotExist mk
            by (cases c) (auto simp: confined_refl intro: IH)
          with e1 e2 show ?thesis by (blast intro: confined_trans)
        next
          case (StatError e)
          with Cons.prems Entry ok dir st have "w' = w1" by simp
          with e1 show ?thesis by simp
        qed
      next
        case reg
        obtain c w1 where op: "os_OpenTrunc refused ?target ?perm w = (c, w1)"
          by (cases "os_OpenTrunc refused ?target ?perm w")
        have e1: "confined destDir w w1"
          using os_OpenTrunc_confined [OF op] ok by simp
        obtain d w2 where cp: "io_Copy refused ?target bytes read_error w1 = (d, w2)"
          by (cases "io_Copy refused ?target bytes read_error w1")
        have e2: "confined destDir w1 w2"
          using io_Copy_confined [OF cp] ok by simp
        show ?thesis
        proof (cases c)
          case (Some e)
          with Cons.prems Entry ok reg op have "w' = w1" by simp
          with e1 show ?thesis by simp
        next
          case None
          have "confined destDir w2 w'"
            using Cons.prems Entry ok reg op None cp
            by (cases d) (auto simp: confined_refl intro: IH)
          with e1 e2 show ?thesis by (blast intro: confined_trans)
        qed
      next
        case other
        with Cons.prems Entry ok have "extract_entries refused destDir rest w = (r, w')"
          by simp
        then show ?thesis by (rule IH)
      qed
    qed
  qed
qed

lemma extract_entries_append:
  "extract_entries refused destDir (pre @ post) w =
     (case extract_entries refused destDir pre w of
        (None, w1) \<Rightarrow> extract_entries refused destDir post w1
      | (Some e, w1) \<Rightarrow> (Some e, w1))"
proof (induction pre arbitrary: w)
  case Nil
  then show ?case by simp
next
  case (Cons x pre)
  show ?case
  proof (cases x)
    case (NextError e)
    then show ?thesis by simp
  next
    case (Entry header bytes read_error)
    then show ?thesis
      by (simp add: Cons.IH Let_def
               split: prod.splits stat_result.splits option.splits)
  qed
qed

lemma extract_entries_illegal:
  "\<not> strings_HasPrefix (filepath_Join [destDir, Name header]) (destDir @ [PathSeparator]) \<Longrightarrow>
   extract_entries refused destDir (Entry header bytes read_error # rest) w =
     (Some (''illegal file path: '' @ filepath_Join [destDir, Name header]), w)"
  by simp

lemma extract_entries_skip:
  "strings_HasPrefix (filepath_Join [destDir, Name header]) (destDir @ [PathSeparator]) \<Longrightarrow>
   Typeflag header \<noteq> TypeDir \<Longrightarrow> Typeflag header \<noteq> TypeReg \<Longrightarrow>
   extract_entries refused destDir (Entry header bytes read_error # rest) w =
     extract_entries refused destDir rest w"
  by simp

text \<open>
  Claim C1. When the extraction reaches an entry whose joined path does not have the
  destination directory followed by the separator as a prefix, it returns the error
  \<open>illegal file path\<close> and does nothing more: the world is the one left by the entries
  before. And in every extraction, whatever the archive, every call on the file tree
  is at a path that has that prefix, and no path without the prefix is changed, but for
  missing directories on the way to one that \<^verbatim>\<open>os.MkdirAll\<close> creates.
\<close>

theorem C1_path_traversal_rejected:
  "(\<not> strings_HasPrefix (filepath_Join [destDir, Name header]) (destDir @ [PathSeparator])
      \<and> extract_entries refused destDir pre w = (None, w1)
    \<longrightarrow> extractTarGz refused (Inr (pre @ Entry header bytes read_error # rest)) destDir w =
          (Some (''illegal file path: '' @ filepath_Join [destDir, Name header]), w1))
   \<and> list_all (inside destDir) (done_since w (snd (extractTarGz refused archive destDir w)))
   \<and> outside_kept destDir (files w) (files (snd (extractTarGz refused archive destDir w)))"
proof -
  have "confined destDir w (snd (extractTarGz refused archive destDir w))"
  proof (cases archive)
    case (Inl e)
    then show ?thesis by (simp add: extractTarGz_def confined_refl)
  next
    case (Inr entries)
    then show ?thesis
      by (cases "extract_entries refused destDir entries w")
         (simp add: extractTarGz_def extract_entries_confined)
  qed
  then show ?thesis
    by (simp add: confined_def extends_by_done_since extractTarGz_def
                  extract_entries_append extract_entries_illegal)
qed

theorem C1_path_traversal_rejected_witness:
  "\<not> strings_HasPrefix (filepath_Join [''/home/u/.local'', ''../../evil''])
        (''/home/u/.local'' @ [PathSeparator])
   \<and> fst (extract_entries no_refusal ''/home/u/.local'' [entry_go_dir] home_world) = None
   \<and> extractTarGz no_refusal (Inr ([entry_go_dir] @ entry_evil_file # [entry_version_file]))
         ''/home/u/.local'' home_world =
       (Some ''illegal file path: /home/evil'',
        snd (extract_entries no_refusal ''/home/u/.local'' [entry_go_dir] home_world))
   \<and> list_all (inside ''/home/u/.local'')
         (done_since home_world
            (snd (extractTarGz no_refusal
                    (Inr ([entry_go_dir] @ entry_evil_file # [entry_version_file]))
                    ''/home/u/.local'' home_world)))"
proof -
  let ?dest = "''/home/u/.local''"
  let ?evil = "\<lparr>Name = ''../../evil'', Typeflag = TypeReg, Mode = 0x1A4\<rparr>"
  let ?w1 = "snd (extract_entries no_refusal ?dest [entry_go_dir] home_world)"
  let ?archive = "Inr ([entry_go_dir] @ entry_evil_file # [entry_version_file])"
  have j: "filepath_Join [?dest, ''../../evil''] = ''/home/evil''"
    by code_simp
  have h1: "\<not> strings_HasPrefix (filepath_Join [?dest, Name ?evil]) (?dest @ [PathSeparator])"
    by code_simp
  have h0: "fst (extract_entries no_refusal ?dest [entry_go_dir] home_world) = None"
    by code_simp
  then have h2: "extract_entries no_refusal ?dest [entry_go_dir] home_world = (None, ?w1)"
    by (simp add: prod_eq_iff)
  note t = C1_path_traversal_rejected
             [of ?dest ?evil no_refusal "[entry_go_dir]" home_world ?w1 "''payload''" None
                 "[entry_version_file]" ?archive]
  from t h1 h2 have r: "extractTarGz no_refusal ?archive ?dest home_world =
                          (Some (''illegal file path: '' @ filepath_Join [?dest, Name ?evil]), ?w1)"
    unfolding entry_evil_file_def by blast
  from t have l: "list_all (inside ?dest)
                    (done_since home_world (snd (extractTarGz no_refusal ?archive ?dest home_world)))"
    by blast
  from h1 have c1: "\<not> strings_HasPrefix (filepath_Join [?dest, ''../../evil''])
                       (?dest @ [PathSeparator])"
    by simp
  from r have c3: "extractTarGz no_refusal ?archive ?dest home_world =
                     (Some ''illegal file path: /home/evil'', ?w1)"
    by (simp add: j)
  from c1 h0 c3 l show ?thesis by blast
qed

text \<open>
  Claim C7, as stated, has every entry that is neither a directory nor a regular file
  skipped without an error. The check of the path comes before the switch on the type: a
  symbolic link named \<open>../../evil\<close> ends the extraction with an error.
\<close>

theorem C7_symlink_outside_counterexample:
  "Typeflag \<lparr>Name = ''../../evil'', Typeflag = TypeSymlink, Mode = 0x1FF\<rparr> \<noteq> TypeDir
   \<and> Typeflag \<lparr>Name = ''../../evil'', Typeflag = TypeSymlink, Mode = 0x1FF\<rparr> \<noteq> TypeReg
   \<and> extractTarGz no_refusal (Inr [entry_evil_symlink, entry_go_dir, entry_version_file])
         ''/home/u/.local'' home_world =
       (Some ''illegal file path: /home/evil'', home_world)"
proof -
  have j: "filepath_Join [''/home/u/.local'', ''../../evil''] = ''/home/evil''"
    by code_simp
  show ?thesis
    by (simp add: extractTarGz_def entry_evil_symlink_def j strings_HasPrefix_def
                  PathSeparator_def TypeSymlink_def TypeDir_def TypeReg_def)
qed

text \<open>
  Claim C7, amended. An entry that is neither a directory nor a regular file and whose
  joined path has the destination directory followed by the separator as a prefix is
  skipped: the extraction goes as if the entry were not in the archive, so nothing is
  created for it, no error is reported and the next entry is processed. An entry that is
  neither a directory nor a regular file never has an effect on the file tree, whatever
  its path: the world after it is the world before it.
\<close>

theorem C7_other_types_skipped:
  assumes "Typeflag header \<noteq> TypeDir" and "Typeflag header \<noteq> TypeReg"
  shows "(strings_HasPrefix (filepath_Join [destDir, Name header]) (destDir @ [PathSeparator])
            \<longrightarrow> extractTarGz refused (Inr (pre @ Entry header bytes read_error # rest)) destDir w =
                extractTarGz refused (Inr (pre @ rest)) destDir w)
       \<and> snd (extractTarGz refused (Inr [Entry header bytes read_error]) destDir w) = w"
  using assms
  by (auto simp: extractTarGz_def extract_entries_append Let_def
           split: prod.splits option.splits)

theorem C7_other_types_skipped_witness:
  "extractTarGz no_refusal (Inr ([entry_go_dir] @ entry_symlink # [entry_version_file]))
      ''/home/u/.local'' home_world =
   extractTarGz no_refusal (Inr ([entry_go_dir] @ [entry_version_file]))
      ''/home/u/.local'' home_world
   \<and> fst (extractTarGz no_refusal (Inr ([entry_go_dir] @ entry_symlink # [entry_version_file]))
            ''/home/u/.local'' home_world) = None
   \<and> snd (extractTarGz no_refusal (Inr [entry_symlink]) ''/home/u/.local'' home_world)
       = home_world"
proof -
  let ?dest = "''/home/u/.local''"
  let ?link = "\<lparr>Name = ''go/bin/gofmt'', Typeflag = TypeSymlink, Mode = 0x1FF\<rparr>"
  have d: "Typeflag ?link \<noteq> TypeDir"
    by code_simp
  have r: "Typeflag ?link \<noteq> TypeReg"
    by code_simp
  have p: "strings_HasPrefix (filepath_Join [?dest, Name ?link]) (?dest @ [PathSeparator])"
    by code_simp
  note t = C7_other_types_skipped
             [OF d r, of ?dest no_refusal "[entry_go_dir]" "[]" None "[entry_version_file]"
                 home_world]
  from t p have 1:
    "extractTarGz no_refusal (Inr ([entry_go_dir] @ entry_symlink # [entry_version_file]))
        ?dest home_world =
     extractTarGz no_refusal (Inr ([entry_go_dir] @ [entry_version_file])) ?dest home_world"
    unfolding entry_symlink_def by blast
  have 2: "fst (extractTarGz no_refusal
                  (Inr ([entry_go_dir] @ entry_symlink # [entry_version_file]))
                  ?dest home_world) = None"
    by code_simp
  from t have 3: "snd (extractTarGz no_refusal (Inr [entry_symlink]) ?dest home_world)
                    = home_world"
    unfolding entry_symlink_def by blast
  from 1 2 3 show ?thesis by blast
qed

section \<open>Claims about the cleaning up\<close>

lemma os_RemoveAll_gone:
  "os_RemoveAll refused p w = (None, w') \<Longrightarrow> below p q \<Longrightarrow> files w' q = None"
  by (auto simp: os_RemoveAll_def Let_def split: option.splits)

lemma cleanup_old_install_path:
  "fst (cleanup_old_install refused rootMode euid homeDir w) =
     (if rootMode \<and> euid = 0 then ''/usr/local/go''
      else filepath_Join [homeDir, ''.local'', ''go''])"
  by (simp add: cleanup_old_install_def Let_def
           split: prod.splits stat_result.splits option.splits)

text \<open>
  Claim C8, as stated, has the earlier installation deleted whenever the extraction
  starts. When \<^verbatim>\<open>os.RemoveAll\<close> fails, \<^verbatim>\<open>main\<close> prints the error and goes on: the
  extraction starts, and succeeds, with the earlier \<open>VERSION\<close> file still in place.
\<close>

theorem C8_failed_removal_counterexample:
  "files (snd (cleanup_old_install refuse_removal False 1000 ''/home/u'' home_world))
      ''/home/u/.local/go/VERSION'' = Some (Regular 0x1A4 ''go1.21.0'')
   \<and> fst (cleanup_and_extract refuse_removal False 1000 ''/home/u'' (Inr [entry_go_dir])
           home_world) = Running ''/home/u/.local/go''
   \<and> files (snd (cleanup_and_extract refuse_removal False 1000 ''/home/u'' (Inr [entry_go_dir])
           home_world)) ''/home/u/.local/go/VERSION'' = Some (Regular 0x1A4 ''go1.21.0'')"
  by code_simp

text \<open>
  Claim C8, amended. Before the extraction starts, \<^verbatim>\<open>main\<close> asks for the removal of
  the install path, unless \<^verbatim>\<open>os.Stat\<close> reports that the path does not exist. When the
  removal is not refused, and in a file tree where something below the install path
  exists only if the install path does, nothing is left at or below the install path in
  the world in which the extraction starts. (When the removal fails, an error is printed
  and the extraction starts all the same.)
\<close>

theorem C8_removed_before_extraction:
  assumes "cleanup_old_install refused rootMode euid homeDir w = (installPath, w1)"
    and "refused KRemoveAll installPath = None"
    and "\<forall>q. below installPath q \<and> files w q \<noteq> None \<longrightarrow> files w installPath \<noteq> None"
  shows "(\<forall>q. below installPath q \<longrightarrow> files w1 q = None)
       \<and> cleanup_and_extract refused rootMode euid homeDir archive w =
           (case extractTarGz refused archive
                   (if rootMode \<and> euid = 0 then ''/usr/local''
                    else filepath_Join [homeDir, ''.local''])
                   (emit (Stdout (''Extracting installation package to '' @ installPath
                                  @ ''...'' @ [CHR 0x0A])) w1) of
              (Some e, w3) \<Rightarrow>
                (Exit 1, emit (Stderr (''Error: Failed to extract installation package: ''
                                       @ e @ [CHR 0x0A])) w3)
            | (None, w3) \<Rightarrow>
                (Running installPath, emit (Stdout (''Extraction complete'' @ [CHR 0x0A])) w3))"
proof -
  have ip: "installPath = (if rootMode \<and> euid = 0 then ''/usr/local/go''
                           else filepath_Join [homeDir, ''.local'', ''go''])"
    using assms(1) cleanup_old_install_path [of refused rootMode euid homeDir w] by simp
  let ?w0 = "emit (Stdout (''Cleaning up old installation directory (if exists)....''
                           @ [CHR 0x0A])) w"
  obtain s ws where st: "os_Stat refused installPath ?w0 = (s, ws)"
    by (cases "os_Stat refused installPath ?w0")
  have fs: "files ws = files w"
    using os_Stat_files [OF st] by simp
  have gone: "files w1 q = None" if b: "below installPath q" for q
  proof (cases "s = StatNotExist")
    case True
    with st have "files w installPath = None"
      by (auto simp: os_Stat_def split: option.splits)
    with assms(3) b have "files w q = None" by blast
    moreover from True st assms(1) ip have "w1 = ws"
      by (auto simp: cleanup_old_install_def Let_def)
    ultimately show ?thesis using fs by simp
  next
    case False
    obtain r wr where rm: "os_RemoveAll refused installPath ws = (r, wr)"
      by (cases "os_RemoveAll refused installPath ws")
    with assms(2) have rn: "r = None"
      by (auto simp: os_RemoveAll_def Let_def)
    from False st rm rn assms(1) ip have "w1 = wr"
      by (cases s) (auto simp: cleanup_old_install_def Let_def)
    with os_RemoveAll_gone [OF rm [unfolded rn] b] show ?thesis by simp
  qed
  then show ?thesis
    using assms(1) by (simp add: cleanup_and_extract_def)
qed

theorem C8_removed_before_extraction_witness:
  "fst (cleanup_old_install no_refusal False 1000 ''/home/u'' home_world) = ''/home/u/.local/go''
   \<and> no_refusal KRemoveAll ''/home/u/.local/go'' = None
   \<and> files home_world ''/home/u/.local/go'' \<noteq> None
   \<and> below ''/home/u/.local/go'' ''/home/u/.local/go/VERSION''
   \<and> files (snd (cleanup_old_install no_refusal False 1000 ''/home/u'' home_world))
        ''/home/u/.local/go/VERSION'' = None"
proof -
  let ?ip = "''/home/u/.local/go''"
  let ?w1 = "snd (cleanup_old_install no_refusal False 1000 ''/home/u'' home_world)"
  have 1: "fst (cleanup_old_install no_refusal False 1000 ''/home/u'' home_world) = ?ip"
    by code_simp
  then have a: "cleanup_old_install no_refusal False 1000 ''/home/u'' home_world = (?ip, ?w1)"
    by (simp add: prod_eq_iff)
  have 2: "no_refusal KRemoveAll ?ip = None"
    by (simp add: no_refusal_def)
  have 3: "files home_world ?ip \<noteq> None"
    by code_simp
  then have c: "\<forall>q. below ?ip q \<and> files home_world q \<noteq> None \<longrightarrow> files home_world ?ip \<noteq> None"
    by blast
  have 4: "below ?ip ''/home/u/.local/go/VERSION''"
    by code_simp
  from C8_removed_before_extraction [OF a 2 c] 4
  have 5: "files ?w1 ''/home/u/.local/go/VERSION'' = None"
    by blast
  from 1 2 3 4 5 show ?thesis by blast
qed

section \<open>Claims about the environment configurator\<close>

lemma files_emits [simp]: "files (emits es w) = files w"
  by (simp add: emits_def)

lemma files_manual_instead [simp]: "files (manual_instead msg installPath w) = files w"
  by (simp add: manual_instead_def)

lemmas os_defs =
  os_Stat_def os_Create_def os_OpenTrunc_def os_Write_def os_ReadFile_def os_OpenAppend_def

lemma configureUserPath_files:
  "files (configureUserPath refused homeDir installPath w) =
     user_files refused homeDir installPath (files w)"
proof -
  let ?p = "filepath_Join [homeDir, ''.profile'']"
  note defs = configureUserPath_def user_files_def profile_after_def Let_def os_defs
    fun_upd_idem
  show ?thesis
  proof (cases "refused KStat ?p")
    case (Some e)
    then show ?thesis by (simp add: defs)
  next
    case st: None
    show ?thesis
    proof (cases "files w ?p")
      case absent: None
      show ?thesis
      proof (cases "refused KOpenTrunc ?p")
        case (Some e)
        with st absent show ?thesis by (simp add: defs)
      next
        case op: None
        show ?thesis
        proof (cases "parent_missing (files w) ?p")
          case True
          with st absent op show ?thesis by (simp add: defs)
        next
          case False
          with st absent op show ?thesis
            by (cases "refused KWrite ?p") (simp_all add: defs)
        qed
      qed
    next
      case (Some n)
      show ?thesis
      proof (cases n)
        case (Directory perm)
        with st Some show ?thesis
          by (cases "refused KReadFile ?p") (simp_all add: defs)
      next
        case (Regular perm c)
        show ?thesis
        proof (cases "refused KReadFile ?p")
          case (Some e)
          with st \<open>files w ?p = Some n\<close> Regular show ?thesis by (simp add: defs)
        next
          case rd: None
          show ?thesis
          proof (cases "strings_Contains c (filepath_Join [installPath, ''bin''])")
            case True
            with st \<open>files w ?p = Some n\<close> Regular rd show ?thesis by (simp add: defs)
          next
            case False
            with st \<open>files w ?p = Some n\<close> Regular rd show ?thesis
              by (cases "refused KOpenAppend ?p"; cases "refused KWrite ?p")
                 (simp_all add: defs)
          qed
        qed
      qed
    qed
  qed
qed

subsection \<open>Facts about strings and paths\<close>

lemma strings_HasPrefix_append: "strings_HasPrefix (b @ c) b"
  by (simp add: strings_HasPrefix_def)

lemma strings_HasPrefix_Contains: "strings_HasPrefix s sub \<Longrightarrow> strings_Contains s sub"
  by (cases s) (auto simp: strings_HasPrefix_def)

lemma strings_Contains_append: "strings_Contains (a @ b @ c) b"
  by (induction a) (simp_all add: strings_HasPrefix_Contains strings_HasPrefix_append)

lemma export_line_Contains:
  "strings_Contains (pre @ export_line goBinPath @ post) goBinPath"
proof -
  have "pre @ export_line goBinPath @ post =
          (pre @ ''export PATH='' @ [CHR 0x22]) @ goBinPath @ ('':$PATH'' @ [CHR 0x22] @ post)"
    by (simp add: export_line_def)
  then show ?thesis
    by (simp only: strings_Contains_append)
qed

lemma split_path_not_Nil: "split_path s \<noteq> []"
  by (induction s) (auto split: list.splits)

lemma split_path_append:
  "split_path (a @ PathSeparator # b) = split_path a @ split_path b"
proof (induction a)
  case Nil
  show ?case by simp
next
  case (Cons c a)
  then show ?case
    using split_path_not_Nil [of a] by (cases "split_path a") auto
qed

lemma join_path_snoc: "\<exists>pre. join_path (xs @ [y]) = pre @ y"
proof (induction xs rule: join_path.induct)
  case 1
  show ?case by simp
next
  case (2 x)
  show ?case by simp
next
  case (3 x z zs)
  then obtain pre where "join_path ((z # zs) @ [y]) = pre @ y" by blast
  then have "join_path ((x # z # zs) @ [y]) = (x @ [PathSeparator] @ pre) @ y" by simp
  then show ?case by blast
qed

text \<open>The path of the user's profile ends with \<open>.profile\<close>.\<close>

lemma Clean_profile_suffix:
  assumes "path = homeDir @ PathSeparator # ''.profile''"
  shows "\<exists>pre. filepath_Clean path = pre @ ''.profile''"
proof -
  define rooted where "rooted = (hd path = PathSeparator)"
  define out where "out = join_path (rev (foldl (clean_element rooted) [] (split_path path)))"
  have ne: "path \<noteq> []"
    using assms by simp
  have sp: "split_path ''.profile'' = [''.profile'']"
    by code_simp
  have "split_path path = split_path homeDir @ [''.profile'']"
    unfolding assms by (simp only: split_path_append sp)
  then have "foldl (clean_element rooted) [] (split_path path)
               = ''.profile'' # foldl (clean_element rooted) [] (split_path homeDir)"
    by (simp add: clean_element_def)
  then have "out = join_path (rev (foldl (clean_element rooted) [] (split_path homeDir))
                              @ [''.profile''])"
    by (simp add: out_def)
  then obtain pre where o: "out = pre @ ''.profile''"
    using join_path_snoc by metis
  have "filepath_Clean path =
          (if rooted then PathSeparator # out else if out = [] then ''.'' else out)"
    using ne by (simp add: filepath_Clean_def Let_def rooted_def out_def)
  then have "filepath_Clean path = (PathSeparator # pre) @ ''.profile''
             \<or> filepath_Clean path = pre @ ''.profile''"
    by (simp add: o)
  then show ?thesis by blast
qed

lemma profile_path_suffix: "\<exists>pre. filepath_Join [homeDir, ''.profile''] = pre @ ''.profile''"
proof (cases "homeDir = []")
  case True
  have "filepath_Join [[], ''.profile''] = ''.profile''"
    by code_simp
  with True show ?thesis by simp
next
  case False
  then have "filepath_Join [homeDir, ''.profile'']
               = filepath_Clean (homeDir @ PathSeparator # ''.profile'')"
    by (simp add: filepath_Join_def)
  with Clean_profile_suffix [OF refl, of homeDir] show ?thesis by simp
qed

lemma system_profile_path:
  "filepath_Join [systemProfileDDirextory, systemGoProfileFilename] = ''/etc/profile.d/go.sh''"
  by code_simp

lemma profile_path_distinct:
  "filepath_Join [homeDir, ''.profile''] \<noteq> ''/etc/profile.d/go.sh''"
  "filepath_Join [homeDir, ''.profile''] \<noteq> ''/etc/profile.d''"
proof -
  obtain pre where p: "filepath_Join [homeDir, ''.profile''] = pre @ ''.profile''"
    using profile_path_suffix by blast
  have "last (pre @ ''.profile'') = CHR ''e''" by simp
  then show "filepath_Join [homeDir, ''.profile''] \<noteq> ''/etc/profile.d/go.sh''"
    and "filepath_Join [homeDir, ''.profile''] \<noteq> ''/etc/profile.d''"
    unfolding p by auto
qed

lemma ancestors_proper: "d \<in> set (ancestors p) \<Longrightarrow> d \<noteq> p"
  by (auto simp: ancestors_def)

lemma parent_missing_upd_self: "parent_missing (fs(p := n)) p = parent_missing fs p"
proof (cases "rev (ancestors p)")
  case Nil
  then show ?thesis by (simp add: parent_missing_def)
next
  case (Cons d ds)
  then have "d \<in> set (ancestors p)"
    by (metis list.set_intros(1) set_rev)
  then have "d \<noteq> p" by (rule ancestors_proper)
  with Cons show ?thesis by (simp add: parent_missing_def)
qed

lemma parent_missing_go_sh:
  "parent_missing fs ''/etc/profile.d/go.sh'' =
     (case fs ''/etc/profile.d'' of Some (Directory perm) \<Rightarrow> False | _ \<Rightarrow> True)"
proof -
  have "rev (ancestors ''/etc/profile.d/go.sh'') = [''/etc/profile.d'', ''/etc'']"
    by code_simp
  then show ?thesis by (simp add: parent_missing_def)
qed

subsection \<open>Treating a profile file twice\<close>

lemma profile_after_twice:
  "fst (profile_after refused missing p goBinPath
          (fst (profile_after refused missing p goBinPath n))) =
   fst (profile_after refused missing p goBinPath n)"
proof (cases "refused KStat p")
  case (Some e)
  then show ?thesis by (simp add: profile_after_def)
next
  case st: None
  show ?thesis
  proof (cases n)
    case None
    with st show ?thesis
      using export_line_Contains [of "[]" goBinPath "[CHR 0x0A]"]
      by (simp add: profile_after_def)
  next
    case (Some nd)
    show ?thesis
    proof (cases nd)
      case (Directory perm)
      with st Some show ?thesis by (simp add: profile_after_def)
    next
      case (Regular perm c)
      with st Some show ?thesis
        using export_line_Contains [of "c @ [CHR 0x0A]" goBinPath "[CHR 0x0A]"]
        by (simp add: profile_after_def)
    qed
  qed
qed

text \<open>
  A treatment that succeeded succeeds again, if the file existed before or may be read.
\<close>

lemma profile_after_done_again:
  assumes "snd (profile_after refused missing p goBinPath n)"
    and "n \<noteq> None \<or> refused KReadFile p = None"
  shows "snd (profile_after refused missing p goBinPath
                (fst (profile_after refused missing p goBinPath n)))"
proof (cases "refused KStat p")
  case (Some e)
  with assms show ?thesis by (simp add: profile_after_def)
next
  case st: None
  show ?thesis
  proof (cases n)
    case None
    with st assms show ?thesis
      using export_line_Contains [of "[]" goBinPath "[CHR 0x0A]"]
      by (simp add: profile_after_def split: if_splits)
  next
    case (Some nd)
    show ?thesis
    proof (cases nd)
      case (Directory perm)
      with st Some assms show ?thesis by (simp add: profile_after_def)
    next
      case (Regular perm c)
      with st Some assms show ?thesis
        using export_line_Contains [of "c @ [CHR 0x0A]" goBinPath "[CHR 0x0A]"]
        by (simp add: profile_after_def split: if_splits)
    qed
  qed
qed

lemma user_files_twice:
  "user_files refused homeDir installPath (user_files refused homeDir installPath fs) =
   user_files refused homeDir installPath fs"
  by (simp add: user_files_def Let_def parent_missing_upd_self profile_after_twice)

lemma user_files_other:
  "q \<noteq> filepath_Join [homeDir, ''.profile''] \<Longrightarrow>
   user_files refused homeDir installPath fs q = fs q"
  by (simp add: user_files_def Let_def)

lemma system_files_paths:
  "system_files refused homeDir installPath fs =
     (if refused KStat ''/etc/profile.d'' \<noteq> None \<or> fs ''/etc/profile.d'' = None
      then user_files refused homeDir installPath fs
      else
        (case profile_after refused (parent_missing fs ''/etc/profile.d/go.sh'')
                ''/etc/profile.d/go.sh'' (filepath_Join [installPath, ''bin''])
                (fs ''/etc/profile.d/go.sh'') of
           (n, done) \<Rightarrow>
             if done then fs(''/etc/profile.d/go.sh'' := n)
             else user_files refused homeDir installPath (fs(''/etc/profile.d/go.sh'' := n))))"
  unfolding system_files_def Let_def system_profile_path
  unfolding systemProfileDDirextory_def
  by (rule refl)

lemma system_files_twice:
  assumes "refused KReadFile ''/etc/profile.d/go.sh'' = None"
  shows "system_files refused homeDir installPath (system_files refused homeDir installPath fs) =
         system_files refused homeDir installPath fs"
proof -
  let ?p = "filepath_Join [homeDir, ''.profile'']"
  let ?g = "''/etc/profile.d/go.sh''"
  let ?d = "''/etc/profile.d''"
  let ?bin = "filepath_Join [installPath, ''bin'']"
  let ?U = "user_files refused homeDir installPath"
  have pg: "?p \<noteq> ?g" and pd: "?p \<noteq> ?d"
    by (rule profile_path_distinct)+
  have gd: "?g \<noteq> ?d" by simp
  have Ud: "?U x ?d = x ?d" for x
    using pd by (simp add: user_files_other)
  have Ug: "?U x ?g = x ?g" for x
    using pg by (simp add: user_files_other)
  note unf = system_files_paths
  show ?thesis
  proof (cases "refused KStat ?d \<noteq> None \<or> fs ?d = None")
    case True
    then have 1: "system_files refused homeDir installPath fs = ?U fs"
      by (auto simp: unf)
    from True have "refused KStat ?d \<noteq> None \<or> ?U fs ?d = None"
      by (simp add: Ud)
    then have "system_files refused homeDir installPath (?U fs) = ?U (?U fs)"
      by (auto simp: unf)
    with 1 show ?thesis by (simp add: user_files_twice)
  next
    case False
    define n where "n = fst (profile_after refused (parent_missing fs ?g) ?g ?bin (fs ?g))"
    define ok where "ok = snd (profile_after refused (parent_missing fs ?g) ?g ?bin (fs ?g))"
    have pa: "profile_after refused (parent_missing fs ?g) ?g ?bin (fs ?g) = (n, ok)"
      by (simp add: n_def ok_def)
    have n2: "fst (profile_after refused (parent_missing fs ?g) ?g ?bin n) = n"
      unfolding n_def by (rule profile_after_twice)
    have pm: "parent_missing (fs(?g := x)) ?g = parent_missing fs ?g" for x
      by (rule parent_missing_upd_self)
    show ?thesis
    proof (cases ok)
      case True
      with False pa have 1: "system_files refused homeDir installPath fs = fs(?g := n)"
        by (auto simp: unf)
      have "snd (profile_after refused (parent_missing fs ?g) ?g ?bin n)"
        unfolding n_def using True assms
        by (intro profile_after_done_again) (simp_all add: ok_def)
      then have "profile_after refused (parent_missing fs ?g) ?g ?bin n = (n, True)"
        using n2 by (simp add: prod_eq_iff)
      with False gd
      have "system_files refused homeDir installPath (fs(?g := n)) = (fs(?g := n))(?g := n)"
        by (auto simp: unf pm)
      with 1 show ?thesis by simp
    next
      case nok: False
      with False pa
      have 1: "system_files refused homeDir installPath fs = ?U (fs(?g := n))"
        by (auto simp: unf)
      let ?fs1 = "?U (fs(?g := n))"
      have d1: "?fs1 ?d = fs ?d"
        using gd by (simp add: Ud)
      have g1: "?fs1 ?g = n"
        by (simp add: Ug)
      have pm1: "parent_missing ?fs1 ?g = parent_missing fs ?g"
        by (simp add: parent_missing_go_sh d1)
      obtain ok2 where pa2: "profile_after refused (parent_missing fs ?g) ?g ?bin n = (n, ok2)"
        using n2 by (cases "profile_after refused (parent_missing fs ?g) ?g ?bin n") simp
      have same: "?fs1(?g := n) = ?fs1"
        using g1 by (simp add: fun_upd_idem)
      from False have "refused KStat ?d = None" and "fs ?d \<noteq> None"
        by auto
      then have "system_files refused homeDir installPath ?fs1 = ?fs1"
        by (cases ok2) (simp_all add: unf d1 g1 pm1 pa2 same user_files_twice)
      with 1 show ?thesis by simp
    qed
  qed
qed

subsection \<open>The calls of the configuration\<close>

lemma extends_by_mono:
  "extends_by P w w' \<Longrightarrow> (\<And>e. P e \<Longrightarrow> Q e) \<Longrightarrow> extends_by Q w w'"
  by (auto simp: extends_by_def list_all_iff)

lemma extends_by_emits: "list_all P es \<Longrightarrow> extends_by P w (emits es w)"
  by (simp add: extends_by_def emits_def)

lemma prints_call_at [simp]:
  "list_all (call_at p b) (printManualPathInstruction installPath)"
  "list_all (call_at p b) (printUserActivationInstruction profilePath)"
  "list_all (call_at p b) (printGlobalActivationInstruction profilePath)"
  by (simp_all add: printManualPathInstruction_def printUserActivationInstruction_def
                    printGlobalActivationInstruction_def)

lemma manual_instead_calls:
  "extends_by (call_at p b) w w' \<Longrightarrow>
   extends_by (call_at p b) w (manual_instead msg installPath w')"
  unfolding manual_instead_def
  by (erule extends_by_trans) (simp add: extends_by_emits)

lemma emits_calls:
  "extends_by (call_at p b) w w' \<Longrightarrow> list_all (call_at p b) es \<Longrightarrow>
   extends_by (call_at p b) w (emits es w')"
  by (erule extends_by_trans) (simp add: extends_by_emits)

lemma emit_calls:
  "extends_by (call_at p b) w w' \<Longrightarrow> call_at p b e \<Longrightarrow>
   extends_by (call_at p b) w (emit e w')"
  by (erule extends_by_trans) (simp add: extends_by_emit)

text \<open>Each call, as a step from a world reached so far.\<close>

lemma os_Stat_step:
  "extends_by (call_at p b) w w1 \<Longrightarrow> extends_by (call_at p b) w (snd (os_Stat refused p w1))"
  by (erule extends_by_trans) (simp add: os_Stat_def extends_by_emit)

lemma os_ReadFile_step:
  "extends_by (call_at p b) w w1 \<Longrightarrow>
   extends_by (call_at p b) w (snd (os_ReadFile refused p w1))"
  by (erule extends_by_trans)
     (auto simp: extends_by_def os_ReadFile_def Let_def split: option.splits node.splits)

lemma os_OpenAppend_step:
  "extends_by (call_at p b) w w1 \<Longrightarrow>
   extends_by (call_at p b) w (snd (os_OpenAppend refused p w1))"
  by (erule extends_by_trans)
     (auto simp: extends_by_def os_OpenAppend_def Let_def split: option.splits node.splits)

lemma os_Create_step:
  "extends_by (call_at p b) w w1 \<Longrightarrow> b \<Longrightarrow>
   extends_by (call_at p b) w (snd (os_Create refused p w1))"
  by (erule extends_by_trans)
     (auto simp: extends_by_def os_Create_def os_OpenTrunc_def Let_def
           split: option.splits node.splits)

lemma os_Write_step:
  "extends_by (call_at p b) w w1 \<Longrightarrow> b \<Longrightarrow>
   extends_by (call_at p b) w (snd (os_Write refused p bytes w1))"
  by (erule extends_by_trans)
     (auto simp: extends_by_def os_Write_def Let_def split: option.splits node.splits)

lemma os_ReadFile_content:
  "fst (os_ReadFile refused p w) = Inr content \<Longrightarrow>
   \<exists>perm. files w p = Some (Regular perm content)"
  by (auto simp: os_ReadFile_def Let_def split: option.splits node.splits)

lemma os_Stat_NotExist:
  "fst (os_Stat refused p w) = StatNotExist \<Longrightarrow> files w p = None"
  by (auto simp: os_Stat_def split: option.splits)

lemma os_Stat_files_snd: "files (snd (os_Stat refused p w)) = files w"
  by (simp add: os_Stat_def)

lemma os_ReadFile_files_snd: "files (snd (os_ReadFile refused p w)) = files w"
  by (simp add: os_ReadFile_def Let_def split: option.splits node.splits)

lemma configureUserPath_calls:
  "extends_by (call_at (filepath_Join [homeDir, ''.profile''])
                 (\<not> already (files w (filepath_Join [homeDir, ''.profile'']))
                              (filepath_Join [installPath, ''bin''])))
     w (configureUserPath refused homeDir installPath w)"
proof -
  let ?p = "filepath_Join [homeDir, ''.profile'']"
  let ?bin = "filepath_Join [installPath, ''bin'']"
  let ?b = "\<not> already (files w ?p) ?bin"
  let ?w0 = "emit (Stdout (''Attempting to add Go bin directory to '' @ ?p
                           @ ''...'' @ [CHR 0x0A])) w"
  let ?E = "extends_by (call_at ?p ?b) w"
  have e0: "?E ?w0"
    by (simp add: extends_by_emit)
  obtain s w1 where st: "os_Stat refused ?p ?w0 = (s, w1)"
    by (cases "os_Stat refused ?p ?w0")
  have e1: "?E w1"
    using os_Stat_step [OF e0, of refused] st by simp
  have f1: "files w1 = files w"
    using os_Stat_files_snd [of refused ?p ?w0] st by simp
  show ?thesis
  proof (cases s)
    case (StatError e)
    with st show ?thesis
      by (simp add: configureUserPath_def Let_def manual_instead_calls [OF e1])
  next
    case StatNotExist
    with st have "files ?w0 ?p = None"
      using os_Stat_NotExist [of refused ?p ?w0] by simp
    then have b: ?b
      by (simp add: already_def)
    let ?w1' = "emit (Stdout (''.profile not found, creating '' @ ?p @ ''...'' @ [CHR 0x0A])) w1"
    have e1': "?E ?w1'"
      by (rule emit_calls [OF e1]) simp
    obtain c w2 where cr: "os_Create refused ?p ?w1' = (c, w2)"
      by (cases "os_Create refused ?p ?w1'")
    have e2: "?E w2"
      using os_Create_step [OF e1' b, of refused] cr by simp
    obtain d w3 where wr: "os_Write refused ?p (export_line ?bin @ [CHR 0x0A]) w2 = (d, w3)"
      by (cases "os_Write refused ?p (export_line ?bin @ [CHR 0x0A]) w2")
    have e3: "?E w3"
      using os_Write_step [OF e2 b, of refused "export_line ?bin @ [CHR 0x0A]"] wr by simp
    show ?thesis
      using st StatNotExist cr wr
      by (cases c; cases d)
         (simp_all add: configureUserPath_def Let_def manual_instead_calls [OF e2]
                        manual_instead_calls [OF e3] emits_calls [OF e3])
  next
    case StatOk
    obtain r w2 where rd: "os_ReadFile refused ?p w1 = (r, w2)"
      by (cases "os_ReadFile refused ?p w1")
    have e2: "?E w2"
      using os_ReadFile_step [OF e1, of refused] rd by simp
    show ?thesis
    proof (cases r)
      case (Inl e)
      with st StatOk rd show ?thesis
        by (simp add: configureUserPath_def Let_def manual_instead_calls [OF e2])
    next
      case (Inr content)
      with rd obtain perm where "files w1 ?p = Some (Regular perm content)"
        using os_ReadFile_content [of refused ?p w1 content] by auto
      then have al: "already (files w ?p) ?bin = strings_Contains content ?bin"
        by (simp add: f1 already_def)
      show ?thesis
      proof (cases "strings_Contains content ?bin")
        case True
        with st StatOk rd Inr show ?thesis
          by (simp add: configureUserPath_def Let_def emits_calls [OF e2])
      next
        case False
        with al have b: ?b by simp
        obtain c w3 where oa: "os_OpenAppend refused ?p w2 = (c, w3)"
          by (cases "os_OpenAppend refused ?p w2")
        have e3: "?E w3"
          using os_OpenAppend_step [OF e2, of refused] oa by simp
        obtain d w4 where
          wr: "os_Write refused ?p ([CHR 0x0A] @ export_line ?bin @ [CHR 0x0A]) w3 = (d, w4)"
          by (cases "os_Write refused ?p ([CHR 0x0A] @ export_line ?bin @ [CHR 0x0A]) w3")
        have e4: "?E w4"
          using os_Write_step [OF e3 b, of refused "[CHR 0x0A] @ export_line ?bin @ [CHR 0x0A]"]
                wr by simp
        show ?thesis
          using st StatOk rd Inr False oa wr
          by (cases c; cases d)
             (simp_all add: configureUserPath_def Let_def manual_instead_calls [OF e3]
                            manual_instead_calls [OF e4] emits_calls [OF e4])
      qed
    qed
  qed
qed

lemma system_profile_path_unfolded:
  "filepath_Join [''/etc/profile.d'', ''go.sh''] = ''/etc/profile.d/go.sh''"
  by code_simp

lemma files_user_instead [simp]:
  "files (user_instead refused msg homeDir installPath w) =
     user_files refused homeDir installPath (files w)"
  by (simp add: user_instead_def configureUserPath_files)

lemma configure_path_user_files:
  "\<not> (rootMode \<and> euid = 0) \<Longrightarrow>
   files (configure_path refused rootMode euid homeDir installPath w) =
     user_files refused homeDir installPath (files w)"
  by (simp add: configure_path_def configureUserPath_files)

lemma configure_path_system_files:
  assumes "rootMode \<and> euid = 0"
  shows "files (configure_path refused rootMode euid homeDir installPath w) =
           system_files refused homeDir installPath (files w)"
proof -
  let ?g = "''/etc/profile.d/go.sh''"
  let ?d = "''/etc/profile.d''"
  let ?bin = "filepath_Join [installPath, ''bin'']"
  note defs = configure_path_def system_files_paths profile_after_def Let_def os_defs
    systemProfileDDirextory_def systemGoProfileFilename_def system_profile_path_unfolded
    fun_upd_idem
  from assms have root: "rootMode" "euid = 0" by simp_all
  show ?thesis
  proof (cases "refused KStat ?d")
    case (Some e)
    with root show ?thesis by (simp add: defs)
  next
    case sd: None
    show ?thesis
    proof (cases "files w ?d")
      case None
      with root sd show ?thesis by (simp add: defs)
    next
      case dir: (Some dn)
      show ?thesis
      proof (cases "refused KStat ?g")
        case (Some e)
        with root sd dir show ?thesis by (simp add: defs)
      next
        case sg: None
        show ?thesis
        proof (cases "files w ?g")
          case absent: None
          show ?thesis
          proof (cases "refused KOpenTrunc ?g")
            case (Some e)
            with root sd dir sg absent show ?thesis by (simp add: defs)
          next
            case op: None
            show ?thesis
            proof (cases "parent_missing (files w) ?g")
              case True
              with root sd dir sg absent op show ?thesis by (simp add: defs)
            next
              case False
              with root sd dir sg absent op show ?thesis
                by (cases "refused KWrite ?g") (simp_all add: defs)
            qed
          qed
        next
          case (Some n)
          show ?thesis
          proof (cases n)
            case (Directory perm)
            with root sd dir sg Some show ?thesis
              by (cases "refused KReadFile ?g") (simp_all add: defs)
          next
            case (Regular perm c)
            show ?thesis
            proof (cases "refused KReadFile ?g")
              case (Some e)
              with root sd dir sg \<open>files w ?g = Some n\<close> Regular show ?thesis
                by (simp add: defs)
            next
              case rd: None
              show ?thesis
              proof (cases "strings_Contains c ?bin")
                case True
                with root sd dir sg \<open>files w ?g = Some n\<close> Regular rd show ?thesis
                  by (simp add: defs)
              next
                case False
                with root sd dir sg \<open>files w ?g = Some n\<close> Regular rd show ?thesis
                  by (cases "refused KOpenAppend ?g"; cases "refused KWrite ?g")
                     (simp_all add: defs)
              qed
            qed
          qed
        qed
      qed
    qed
  qed
qed

subsection \<open>A profile file that already has the bin path is left untouched\<close>

lemma untouched_refl: "untouched f w w"
  by (simp add: untouched_def extends_by_refl)

lemma untouched_trans: "untouched f w w1 \<Longrightarrow> untouched f w1 w2 \<Longrightarrow> untouched f w w2"
  by (auto simp: untouched_def intro: extends_by_trans)

lemma untouched_emit: "untouched f w w1 \<Longrightarrow> untouched f w (emit (Stdout s) w1)"
  by (erule untouched_trans) (simp add: untouched_def extends_by_emit)

lemma prints_leave_alone [simp]:
  "list_all (leaves_alone f) (printManualPathInstruction installPath)"
  "list_all (leaves_alone f) (printUserActivationInstruction profilePath)"
  "list_all (leaves_alone f) (printGlobalActivationInstruction profilePath)"
  by (simp_all add: printManualPathInstruction_def printUserActivationInstruction_def
                    printGlobalActivationInstruction_def)

lemma untouched_emits:
  "untouched f w w1 \<Longrightarrow> list_all (leaves_alone f) es \<Longrightarrow> untouched f w (emits es w1)"
  by (erule untouched_trans) (simp add: untouched_def extends_by_emits)

lemma untouched_step:
  "untouched f w w1 \<Longrightarrow> extends_by (leaves_alone f) w1 w2 \<Longrightarrow> files w2 f = files w1 f
   \<Longrightarrow> untouched f w w2"
  by (auto simp: untouched_def intro: extends_by_trans)

lemma untouched_Stat:
  assumes "untouched f w w1" and "os_Stat refused p w1 = (r, w2)"
  shows "untouched f w w2"
proof (rule untouched_step [OF assms(1)])
  show "extends_by (leaves_alone f) w1 w2"
    by (rule os_Stat_extends [OF assms(2)]) simp
  show "files w2 f = files w1 f"
    using assms(2) by (auto simp: os_Stat_def)
qed

lemma untouched_ReadFile:
  assumes "untouched f w w1" and "os_ReadFile refused p w1 = (r, w2)"
  shows "untouched f w w2"
proof (rule untouched_step [OF assms(1)])
  show "extends_by (leaves_alone f) w1 w2"
    by (rule os_ReadFile_extends [OF assms(2)]) simp
  show "files w2 f = files w1 f"
    using assms(2) by (auto simp: os_ReadFile_def Let_def split: option.splits node.splits)
qed

lemma untouched_OpenAppend:
  assumes "untouched f w w1" and "os_OpenAppend refused p w1 = (r, w2)"
  shows "untouched f w w2"
proof (rule untouched_step [OF assms(1)])
  show "extends_by (leaves_alone f) w1 w2"
    by (rule os_OpenAppend_extends [OF assms(2)]) simp
  show "files w2 f = files w1 f"
    using assms(2) by (auto simp: os_OpenAppend_def Let_def split: option.splits node.splits)
qed

lemma untouched_Create:
  assumes "untouched f w w1" and "os_Create refused p w1 = (r, w2)" and "p \<noteq> f"
  shows "untouched f w w2"
proof (rule untouched_step [OF assms(1)])
  show "extends_by (leaves_alone f) w1 w2"
    by (rule os_OpenTrunc_extends [OF assms(2) [unfolded os_Create_def]])
       (simp add: assms(3))
  show "files w2 f = files w1 f"
    using assms(2,3)
    by (auto simp: os_Create_def os_OpenTrunc_def Let_def
             split: option.splits node.splits if_splits)
qed

lemma untouched_Write:
  assumes "untouched f w w1" and "os_Write refused p bytes w1 = (r, w2)" and "p \<noteq> f"
  shows "untouched f w w2"
proof (rule untouched_step [OF assms(1)])
  show "extends_by (leaves_alone f) w1 w2"
    by (rule os_Write_extends [OF assms(2)]) (simp add: assms(3))
  show "files w2 f = files w1 f"
    using assms(2,3)
    by (auto simp: os_Write_def Let_def split: option.splits node.splits if_splits)
qed

lemma profile_after_already:
  "already n goBinPath \<Longrightarrow> fst (profile_after refused missing p goBinPath n) = n"
  by (auto simp: already_def profile_after_def split: option.splits node.splits)

lemma untouched_configureUserPath:
  assumes "untouched f w w1"
    and "already (files w f) (filepath_Join [installPath, ''bin''])"
  shows "untouched f w (configureUserPath refused homeDir installPath w1)"
proof -
  let ?p = "filepath_Join [homeDir, ''.profile'']"
  let ?bin = "filepath_Join [installPath, ''bin'']"
  from assms have al: "already (files w1 f) ?bin"
    by (simp add: untouched_def)
  have "call_at ?p (\<not> already (files w1 ?p) ?bin) e \<Longrightarrow> leaves_alone f e" for e
    using al by (cases e) auto
  with configureUserPath_calls [of homeDir w1 installPath refused]
  have "extends_by (leaves_alone f) w1 (configureUserPath refused homeDir installPath w1)"
    by (rule extends_by_mono)
  moreover have "files (configureUserPath refused homeDir installPath w1) f = files w1 f"
    using al by (auto simp: configureUserPath_files user_files_def Let_def profile_after_already)
  ultimately have "untouched f w1 (configureUserPath refused homeDir installPath w1)"
    by (simp add: untouched_def)
  with assms(1) show ?thesis by (rule untouched_trans)
qed

lemma untouched_manual_instead:
  "untouched f w w1 \<Longrightarrow> untouched f w (manual_instead msg installPath w1)"
  unfolding manual_instead_def by (erule untouched_emits) simp

lemma untouched_user_instead:
  assumes "untouched f w w1"
    and "already (files w f) (filepath_Join [installPath, ''bin''])"
  shows "untouched f w (user_instead refused msg homeDir installPath w1)"
  unfolding user_instead_def
  by (rule untouched_configureUserPath [OF untouched_emits [OF assms(1)] assms(2)]) simp

lemma untouched_configure_path:
  assumes al: "already (files w f) (filepath_Join [installPath, ''bin''])"
  shows "untouched f w (configure_path refused rootMode euid homeDir installPath w)"
proof (cases "rootMode \<and> euid = 0")
  case False
  then show ?thesis
    by (auto simp: configure_path_def
             intro!: untouched_configureUserPath [OF _ al] untouched_emit untouched_refl)
next
  case True
  then have root: "rootMode" "euid = 0" by simp_all
  let ?g = "''/etc/profile.d/go.sh''"
  let ?d = "''/etc/profile.d''"
  let ?bin = "filepath_Join [installPath, ''bin'']"
  let ?U = "untouched f w"
  note fb = untouched_user_instead [OF _ al]
  note defs = configure_path_def Let_def systemProfileDDirextory_def
    systemGoProfileFilename_def system_profile_path_unfolded
  let ?w0 = "emit (Stdout (''Attempting to configure PATH globally...'' @ [CHR 0x0A])) w"
  have u0: "?U ?w0"
    by (intro untouched_emit untouched_refl)
  obtain sd w1 where sd: "os_Stat refused ?d ?w0 = (sd, w1)"
    by (cases "os_Stat refused ?d ?w0")
  note u1 = untouched_Stat [OF u0 sd]
  obtain sg w2 where sg: "os_Stat refused ?g w1 = (sg, w2)"
    by (cases "os_Stat refused ?g w1")
  note u2 = untouched_Stat [OF u1 sg]
  show ?thesis
  proof (cases sd)
    case StatNotExist
    with root sd show ?thesis by (simp add: defs fb [OF u1])
  next
    case (StatError e)
    with root sd show ?thesis by (simp add: defs fb [OF u1])
  next
    case dok: StatOk
    show ?thesis
    proof (cases sg)
      case (StatError e)
      with root sd dok sg show ?thesis by (simp add: defs fb [OF u2])
    next
      case StatNotExist
      with sg have "files w1 ?g = None"
        using os_Stat_NotExist [of refused ?g w1] by simp
      with u1 al have gf: "?g \<noteq> f"
        by (auto simp: untouched_def already_def)
      let ?w2' = "emit (Stdout (''go.sh not found, creating '' @ ?g @ ''...'' @ [CHR 0x0A])) w2"
      obtain c w3 where cr: "os_Create refused ?g ?w2' = (c, w3)"
        by (cases "os_Create refused ?g ?w2'")
      note u3 = untouched_Create [OF untouched_emit [OF u2] cr gf]
      obtain d w4 where wr: "os_Write refused ?g (export_line ?bin @ [CHR 0x0A]) w3 = (d, w4)"
        by (cases "os_Write refused ?g (export_line ?bin @ [CHR 0x0A]) w3")
      note u4 = untouched_Write [OF u3 wr gf]
      show ?thesis
        using root sd dok sg StatNotExist cr wr
        by (cases c; cases d)
           (simp_all add: defs fb [OF u3] fb [OF u4] untouched_emits [OF u4])
    next
      case gok: StatOk
      obtain r w3 where rd: "os_ReadFile refused ?g w2 = (r, w3)"
        by (cases "os_ReadFile refused ?g w2")
      note u3 = untouched_ReadFile [OF u2 rd]
      show ?thesis
      proof (cases r)
        case (Inl e)
        with root sd dok sg gok rd show ?thesis by (simp add: defs fb [OF u3])
      next
        case (Inr content)
        with rd obtain perm where gc: "files w2 ?g = Some (Regular perm content)"
          using os_ReadFile_content [of refused ?g w2 content] by auto
        show ?thesis
        proof (cases "strings_Contains content ?bin")
          case True
          with root sd dok sg gok rd Inr show ?thesis
            by (simp add: defs untouched_emits [OF u3])
        next
          case False
          with gc u2 al have gf: "?g \<noteq> f"
            by (auto simp: untouched_def already_def)
          obtain c w4 where oa: "os_OpenAppend refused ?g w3 = (c, w4)"
            by (cases "os_OpenAppend refused ?g w3")
          note u4 = untouched_OpenAppend [OF u3 oa]
          obtain d w5 where
            wr: "os_Write refused ?g ([CHR 0x0A] @ export_line ?bin @ [CHR 0x0A]) w4 = (d, w5)"
            by (cases "os_Write refused ?g ([CHR 0x0A] @ export_line ?bin @ [CHR 0x0A]) w4")
          note u5 = untouched_Write [OF u4 wr gf]
          show ?thesis
            using root sd dok sg gok rd Inr False oa wr
            by (cases c; cases d)
               (simp_all add: defs fb [OF u4] fb [OF u5] untouched_emits [OF u5])
        qed
      qed
    qed
  qed
qed

text \<open>
  Claim C6, as stated, has two runs of the configuration leave the files as one run does.
  In the system-wide branch the first run writes \<open>/etc/profile.d/go.sh\<close> without reading
  it; when the second run finds the file and cannot read it, it falls back to the user's
  profile and writes the line there.
\<close>

theorem C6_second_run_falls_back_counterexample:
  "files (configure_path refuse_reading True 0 ''/root'' ''/usr/local/go'' root_world)
      ''/root/.profile'' = None
   \<and> files (configure_path refuse_reading True 0 ''/root'' ''/usr/local/go''
              (configure_path refuse_reading True 0 ''/root'' ''/usr/local/go'' root_world))
      ''/root/.profile'' =
       Some (Regular 0x1B6 (export_line ''/usr/local/go/bin'' @ [CHR 0x0A]))"
  by code_simp

text \<open>
  Claim C6, amended. A profile file whose content already has the bin path as a substring
  is left untouched by the configuration, by \<^verbatim>\<open>configureUserPath\<close> and by the system-wide
  branch alike and whatever the operating system refuses: no call that changes the file
  tree is made at its path, and its node is the same afterwards. Two runs of
  \<^verbatim>\<open>configureUserPath\<close> leave the file tree as one run does; so do two runs of the whole
  configuration, provided that in the system-wide branch the reading of
  \<open>/etc/profile.d/go.sh\<close> is not refused.
\<close>

theorem C6_configuration_idempotent:
  "(already (files w f) (filepath_Join [installPath, ''bin'']) \<longrightarrow>
      files (configure_path refused rootMode euid homeDir installPath w) f = files w f
      \<and> list_all (leaves_alone f)
            (done_since w (configure_path refused rootMode euid homeDir installPath w))
      \<and> files (configureUserPath refused homeDir installPath w) f = files w f
      \<and> list_all (leaves_alone f)
            (done_since w (configureUserPath refused homeDir installPath w)))
   \<and> files (configureUserPath refused homeDir installPath
              (configureUserPath refused homeDir installPath w)) =
       files (configureUserPath refused homeDir installPath w)
   \<and> ((rootMode \<and> euid = 0 \<longrightarrow> refused KReadFile ''/etc/profile.d/go.sh'' = None) \<longrightarrow>
        files (configure_path refused rootMode euid homeDir installPath
                 (configure_path refused rootMode euid homeDir installPath w)) =
        files (configure_path refused rootMode euid homeDir installPath w))"
proof (intro conjI impI)
  assume al: "already (files w f) (filepath_Join [installPath, ''bin''])"
  have c: "untouched f w (configure_path refused rootMode euid homeDir installPath w)"
    by (rule untouched_configure_path [OF al])
  have u: "untouched f w (configureUserPath refused homeDir installPath w)"
    by (rule untouched_configureUserPath [OF untouched_refl al])
  from c show "files (configure_path refused rootMode euid homeDir installPath w) f = files w f"
    by (simp add: untouched_def)
  from c show "list_all (leaves_alone f)
                 (done_since w (configure_path refused rootMode euid homeDir installPath w))"
    by (simp add: untouched_def extends_by_done_since)
  from u show "files (configureUserPath refused homeDir installPath w) f = files w f"
    by (simp add: untouched_def)
  from u show "list_all (leaves_alone f)
                 (done_since w (configureUserPath refused homeDir installPath w))"
    by (simp add: untouched_def extends_by_done_since)
next
  show "files (configureUserPath refused homeDir installPath
                 (configureUserPath refused homeDir installPath w)) =
        files (configureUserPath refused homeDir installPath w)"
    by (simp add: configureUserPath_files user_files_twice)
next
  assume rd: "rootMode \<and> euid = 0 \<longrightarrow> refused KReadFile ''/etc/profile.d/go.sh'' = None"
  show "files (configure_path refused rootMode euid homeDir installPath
                 (configure_path refused rootMode euid homeDir installPath w)) =
        files (configure_path refused rootMode euid homeDir installPath w)"
  proof (cases "rootMode \<and> euid = 0")
    case True
    with rd have "refused KReadFile ''/etc/profile.d/go.sh'' = None" by simp
    then show ?thesis
      by (simp add: configure_path_system_files [OF True] system_files_twice)
  next
    case False
    then show ?thesis
      by (simp add: configure_path_user_files [OF False] user_files_twice)
  qed
qed

theorem C6_configuration_idempotent_witness:
  "already (files configured_world ''/home/u/.profile'')
      (filepath_Join [''/home/u/.local/go'', ''bin''])
   \<and> files (configure_path no_refusal False 1000 ''/home/u'' ''/home/u/.local/go''
              configured_world) ''/home/u/.profile'' =
       Some (Regular 0x1A4 configured_profile)
   \<and> no_refusal KReadFile ''/etc/profile.d/go.sh'' = None
   \<and> files (configure_path no_refusal True 0 ''/root'' ''/usr/local/go'' root_world)
        ''/etc/profile.d/go.sh'' =
       Some (Regular 0x1B6 (export_line ''/usr/local/go/bin'' @ [CHR 0x0A]))
   \<and> files (configure_path no_refusal True 0 ''/root'' ''/usr/local/go''
              (configure_path no_refusal True 0 ''/root'' ''/usr/local/go'' root_world)) =
       files (configure_path no_refusal True 0 ''/root'' ''/usr/local/go'' root_world)"
proof -
  have 1: "already (files configured_world ''/home/u/.profile'')
             (filepath_Join [''/home/u/.local/go'', ''bin''])"
    by code_simp
  have f: "files configured_world ''/home/u/.profile'' = Some (Regular 0x1A4 configured_profile)"
    by (simp add: configured_world_def)
  from C6_configuration_idempotent
         [of configured_world "''/home/u/.profile''" "''/home/u/.local/go''" no_refusal
             False 1000 "''/home/u''"] 1
  have "files (configure_path no_refusal False 1000 ''/home/u'' ''/home/u/.local/go''
                 configured_world) ''/home/u/.profile'' =
        files configured_world ''/home/u/.profile''"
    by blast
  with f have 2:
    "files (configure_path no_refusal False 1000 ''/home/u'' ''/home/u/.local/go''
              configured_world) ''/home/u/.profile'' =
     Some (Regular 0x1A4 configured_profile)"
    by simp
  have 3: "no_refusal KReadFile ''/etc/profile.d/go.sh'' = None"
    by (simp add: no_refusal_def)
  have 4: "files (configure_path no_refusal True 0 ''/root'' ''/usr/local/go'' root_world)
             ''/etc/profile.d/go.sh'' =
           Some (Regular 0x1B6 (export_line ''/usr/local/go/bin'' @ [CHR 0x0A]))"
    by code_simp
  from C6_configuration_idempotent
         [of root_world "''/root/.profile''" "''/usr/local/go''" no_refusal True 0 "''/root''"] 3
  have 5: "files (configure_path no_refusal True 0 ''/root'' ''/usr/local/go''
                    (configure_path no_refusal True 0 ''/root'' ''/usr/local/go'' root_world)) =
           files (configure_path no_refusal True 0 ''/root'' ''/usr/local/go'' root_world)"
    by blast
  from 1 2 3 4 5 show ?thesis by blast
qed

end
